theory Spec2Isabelle
  imports Complex_Main "HOL-Library.Word" "HOL-Library.Sublist"
begin

section \<open>Strings of the calculator\<close>

text \<open>
  The calculator of \<^verbatim>\<open>client/src/pages/calculator.tsx\<close> works on JavaScript strings:
  sequences of UTF-16 code units. A code unit is a 16-bit word, a string a list of them.
  Every glyph the source uses lies in the Basic Multilingual Plane, so each is one code
  unit. \<open>ascii\<close> writes a string literal of the source that has ASCII characters only.
\<close>

type_synonym jchar = "16 word"
type_synonym jstring = "jchar list"

definition ascii :: "string \<Rightarrow> jstring" where
  "ascii s = map of_char s"

text \<open>The non-ASCII glyphs of the source, by code point.\<close>

definition TIMES :: jchar where "TIMES = 0x00D7"
definition DIVIDE :: jchar where "DIVIDE = 0x00F7"
definition MINUS :: jchar where "MINUS = 0x2212"
definition PI :: jchar where "PI = 0x03C0"
definition SQRT :: jchar where "SQRT = 0x221A"
definition SUPERSCRIPT_TWO :: jchar where "SUPERSCRIPT_TWO = 0x00B2"

text \<open>
  \<^verbatim>\<open>s.replace(/pat/g, rep)\<close> for a pattern that is a literal, non-empty sequence of
  characters (every pattern of the source is one): the matches are found from left to
  right, the search resumes after each match, and no replacement of the source contains
  a \<^verbatim>\<open>$\<close>. The source never uses an empty pattern; the model leaves the string
  unchanged there.
\<close>

fun replaceAll :: "jstring \<Rightarrow> jstring \<Rightarrow> jstring \<Rightarrow> jstring" where
  "replaceAll [] rep s = s"
| "replaceAll (p # ps) rep [] = []"
| "replaceAll (p # ps) rep (c # cs) =
     (if prefix (p # ps) (c # cs)
      then rep @ replaceAll (p # ps) rep (drop (length ps) cs)
      else c # replaceAll (p # ps) rep cs)"

text \<open>
  \<^verbatim>\<open>String.prototype.trim\<close> removes white space and line terminators from both ends:
  TAB, LF, VT, FF, CR, SPACE, NBSP, U+1680, U+2000 to U+200A, U+2028, U+2029, U+202F,
  U+205F, U+3000 and U+FEFF.
\<close>

definition isWhiteSpace :: "jchar \<Rightarrow> bool" where
  "isWhiteSpace c \<longleftrightarrow>
     c \<in> {0x0009, 0x000A, 0x000B, 0x000C, 0x000D, 0x0020, 0x00A0, 0x1680,
          0x2000, 0x2001, 0x2002, 0x2003, 0x2004, 0x2005, 0x2006, 0x2007, 0x2008,
          0x2009, 0x200A, 0x2028, 0x2029, 0x202F, 0x205F, 0x3000, 0xFEFF}"

definition trim :: "jstring \<Rightarrow> jstring" where
  "trim s = rev (dropWhile isWhiteSpace (rev (dropWhile isWhiteSpace s)))"

text \<open>\<^verbatim>\<open>s.slice(-1)\<close>: the last character as a string, empty for the empty string;
  \<^verbatim>\<open>s.slice(0, -1)\<close>: all but the last character.\<close>

definition sliceLast :: "jstring \<Rightarrow> jstring" where
  "sliceLast s = (if s = [] then [] else [last s])"

definition sliceButLast :: "jstring \<Rightarrow> jstring" where
  "sliceButLast s = butlast s"

text \<open>
  \<^verbatim>\<open>s.split(/[...]/)\<close> with the character class of \<^verbatim>\<open>handleDecimal\<close> (plus,
  U+2212, U+00D7, U+00F7): the pieces of \<open>s\<close> between the characters of the class. The class never matches the empty string, so the
  result has at least one piece, also for the empty string. \<open>splitAcc cur s\<close> carries
  the piece being read.
\<close>

definition isSplitChar :: "jchar \<Rightarrow> bool" where
  "isSplitChar c \<longleftrightarrow> c = of_char CHR ''+'' \<or> c = MINUS \<or> c = TIMES \<or> c = DIVIDE"

fun splitAcc :: "jstring \<Rightarrow> jstring \<Rightarrow> jstring list" where
  "splitAcc cur [] = [cur]"
| "splitAcc cur (c # cs) =
     (if isSplitChar c then cur # splitAcc [] cs else splitAcc (cur @ [c]) cs)"

definition splitOperators :: "jstring \<Rightarrow> jstring list" where
  "splitOperators s = splitAcc [] s"

text \<open>The current numeric segment, in the words of the specification: the substring
  since the last operator, the whole string when it has no operator.\<close>

definition currentSegment :: "jstring \<Rightarrow> jstring" where
  "currentSegment s =
     rev (takeWhile (\<lambda>c. c \<notin> {of_char CHR ''+'', MINUS, TIMES, DIVIDE}) (rev s))"

section \<open>Numbers\<close>

text \<open>
  A JavaScript number is an IEEE 754 double. The model keeps the value of a double: the
  exact rational of a finite one, the two infinities and NaN; the negative zero is not
  told apart from zero (none of the comparisons of the source tells them apart).
  Comparisons, \<^verbatim>\<open>Math.abs\<close>, \<^verbatim>\<open>isFinite\<close> and \<^verbatim>\<open>isNaN\<close> are
  exact on doubles and are defined here. Operations that round take the rounding
  \<open>rnd\<close> from a rational to the nearest double (or an infinity, on overflow) as a
  parameter.
\<close>

datatype number = Finite rat | PosInfinity | NegInfinity | NaN

fun isFinite :: "number \<Rightarrow> bool" where
  "isFinite (Finite q) = True"
| "isFinite v = False"

fun isNaN :: "number \<Rightarrow> bool" where
  "isNaN NaN = True"
| "isNaN v = False"

fun Math_abs :: "number \<Rightarrow> number" where
  "Math_abs (Finite q) = Finite \<bar>q\<bar>"
| "Math_abs PosInfinity = PosInfinity"
| "Math_abs NegInfinity = PosInfinity"
| "Math_abs NaN = NaN"

text \<open>\<^verbatim>\<open>a < b\<close> and \<^verbatim>\<open>a >= b\<close> on numbers: false as soon as one side is NaN.\<close>

fun num_lt :: "number \<Rightarrow> number \<Rightarrow> bool" where
  "num_lt NaN b = False"
| "num_lt a NaN = False"
| "num_lt (Finite a) (Finite b) = (a < b)"
| "num_lt (Finite a) PosInfinity = True"
| "num_lt NegInfinity (Finite b) = True"
| "num_lt NegInfinity PosInfinity = True"
| "num_lt a b = False"

fun num_ge :: "number \<Rightarrow> number \<Rightarrow> bool" where
  "num_ge NaN b = False"
| "num_ge a NaN = False"
| "num_ge a b = (\<not> num_lt a b)"

text \<open>\<^verbatim>\<open>a !== b\<close> on numbers: NaN differs from everything, itself included.\<close>

definition num_strict_neq :: "number \<Rightarrow> number \<Rightarrow> bool" where
  "num_strict_neq a b \<longleftrightarrow> isNaN a \<or> isNaN b \<or> a \<noteq> b"

fun num_neg :: "number \<Rightarrow> number" where
  "num_neg (Finite q) = Finite (- q)"
| "num_neg PosInfinity = NegInfinity"
| "num_neg NegInfinity = PosInfinity"
| "num_neg NaN = NaN"

text \<open>\<^verbatim>\<open>a + b\<close> and \<^verbatim>\<open>a - b\<close>: the exact sum, rounded; the IEEE rules for the
  infinities and NaN.\<close>

fun num_add :: "(rat \<Rightarrow> number) \<Rightarrow> number \<Rightarrow> number \<Rightarrow> number" where
  "num_add rnd NaN b = NaN"
| "num_add rnd a NaN = NaN"
| "num_add rnd (Finite a) (Finite b) = rnd (a + b)"
| "num_add rnd PosInfinity NegInfinity = NaN"
| "num_add rnd NegInfinity PosInfinity = NaN"
| "num_add rnd PosInfinity b = PosInfinity"
| "num_add rnd NegInfinity b = NegInfinity"
| "num_add rnd (Finite a) b = b"

definition num_sub :: "(rat \<Rightarrow> number) \<Rightarrow> number \<Rightarrow> number \<Rightarrow> number" where
  "num_sub rnd a b = num_add rnd a (num_neg b)"

text \<open>The number literals of the source. \<^verbatim>\<open>1e10\<close> is a double; \<^verbatim>\<open>1e-6\<close>
  denotes the double nearest to \<open>10\<^sup>-\<^sup>6\<close>, which is
  \<open>4722366482869645 / 2\<^sup>7\<^sup>2\<close>.\<close>

definition lit_1e10 :: number where
  "lit_1e10 = Finite (10 ^ 10)"

definition double_1em6 :: rat where
  "double_1em6 = 4722366482869645 / 2 ^ 72"

definition lit_1em6 :: number where
  "lit_1em6 = Finite double_1em6"

text \<open>Two more literals, for the examples of the formatter: the doubles that
  \<^verbatim>\<open>0.0000001\<close> and \<^verbatim>\<open>0.001\<close> denote.\<close>

definition lit_1em7 :: number where
  "lit_1em7 = Finite (944473296573929 / 2 ^ 73)"

definition lit_1em3 :: number where
  "lit_1em3 = Finite (1152921504606847 / 2 ^ 60)"

section \<open>The JavaScript runtime and the evaluator library\<close>

text \<open>
  The source imports \<^verbatim>\<open>evaluate\<close> and \<^verbatim>\<open>format\<close> from the library mathjs and
  calls the builtins \<^verbatim>\<open>Number.prototype.toExponential\<close> and
  \<^verbatim>\<open>Number.prototype.toString\<close>. None of them is code of the calculator; they are
  the fields of a record that every function of the model takes as its first argument.
  \<^item> \<open>evaluate rt s\<close>: \<^verbatim>\<open>evaluate(s)\<close>, \<open>None\<close> when the call throws. The result
    is taken to be a number, as the parameter type of \<^verbatim>\<open>formatResult\<close> declares.
  \<^item> \<open>mathjs_format rt v p\<close>: \<^verbatim>\<open>format(v, { precision: p })\<close>.
  \<^item> \<open>toExponential rt v d\<close>: \<^verbatim>\<open>v.toExponential(d)\<close>.
  \<^item> \<open>numToString rt v\<close>: \<^verbatim>\<open>v.toString()\<close>.
  \<^item> \<open>roundToDouble rt q\<close>: the double nearest to the rational \<open>q\<close>.
\<close>

record runtime =
  evaluate :: "jstring \<Rightarrow> number option"
  mathjs_format :: "number \<Rightarrow> nat \<Rightarrow> jstring"
  toExponential :: "number \<Rightarrow> nat \<Rightarrow> jstring"
  numToString :: "number \<Rightarrow> jstring"
  roundToDouble :: "rat \<Rightarrow> number"

section \<open>Result formatter and evaluator adapter\<close>

definition formatResult :: "runtime \<Rightarrow> number \<Rightarrow> jstring" where
  "formatResult rt v =
     (if \<not> isFinite v then ascii ''Error''
      else if num_ge (Math_abs v) lit_1e10
              \<or> (num_lt (Math_abs v) lit_1em6 \<and> num_strict_neq v (Finite 0))
        then toExponential rt v 6
      else mathjs_format rt v 10)"

text \<open>The two chains of replacements of \<^verbatim>\<open>calculateResult\<close>, in the order of the
  source, the replacements that change nothing included.\<close>

definition replaceSymbols :: "jstring \<Rightarrow> jstring" where
  "replaceSymbols expr =
     replaceAll (ascii ''x^y'') (ascii ''^'')
      (replaceAll [of_char CHR ''x'', SUPERSCRIPT_TWO] (ascii ''^2'')
        (replaceAll [SQRT] (ascii ''sqrt'')
          (replaceAll (ascii ''e'') (ascii ''e'')
            (replaceAll [PI] (ascii ''pi'')
              (replaceAll [MINUS] (ascii ''-'')
                (replaceAll [DIVIDE] (ascii ''/'')
                  (replaceAll [TIMES] (ascii ''*'') expr)))))))"

definition replaceFunctions :: "jstring \<Rightarrow> jstring" where
  "replaceFunctions m =
     replaceAll (ascii ''log'') (ascii ''log10'')
      (replaceAll (ascii ''ln'') (ascii ''log'')
        (replaceAll (ascii ''tan'') (ascii ''tan'')
          (replaceAll (ascii ''cos'') (ascii ''cos'')
            (replaceAll (ascii ''sin'') (ascii ''sin'') m))))"

definition mathExpr :: "jstring \<Rightarrow> jstring" where
  "mathExpr expr = replaceFunctions (replaceSymbols expr)"

text \<open>\<^verbatim>\<open>calculateResult\<close>: the blank test comes before the \<^verbatim>\<open>try\<close>; inside it only
  \<^verbatim>\<open>evaluate\<close> can throw, and the \<^verbatim>\<open>catch\<close> turns that into the string
  \<^verbatim>\<open>Error\<close>.\<close>

definition calculateResult :: "runtime \<Rightarrow> jstring \<Rightarrow> jstring" where
  "calculateResult rt expr =
     (if trim expr = [] then ascii ''0''
      else case evaluate rt (mathExpr expr) of
             None \<Rightarrow> ascii ''Error''
           | Some v \<Rightarrow> formatResult rt v)"

section \<open>The calculator state and its handlers\<close>

record CalculatorState =
  expression :: jstring
  result :: jstring
  memory :: number
  hasError :: bool

definition initialState :: CalculatorState where
  "initialState = \<lparr>expression = [], result = ascii ''0'', memory = Finite 0, hasError = False\<rparr>"

text \<open>
  Each handler runs on one event, on the state of the last render; the state that
  \<^verbatim>\<open>setState\<close> receives as \<^verbatim>\<open>prev\<close> is that same state, since the next event is
  handled after the re-render. A handler is a function from the state to the next state.
\<close>

definition updateExpression :: "runtime \<Rightarrow> jstring \<Rightarrow> CalculatorState \<Rightarrow> CalculatorState" where
  "updateExpression rt newExpr prev =
     (let r = calculateResult rt newExpr
      in prev\<lparr>expression := newExpr, result := r, hasError := (r = ascii ''Error'')\<rparr>)"

definition handleNumber :: "runtime \<Rightarrow> jstring \<Rightarrow> CalculatorState \<Rightarrow> CalculatorState" where
  "handleNumber rt num s = updateExpression rt (expression s @ num) s"

definition operators :: "jstring list" where
  "operators = [ascii ''+'', [MINUS], [TIMES], [DIVIDE]]"

definition handleOperator :: "runtime \<Rightarrow> jstring \<Rightarrow> CalculatorState \<Rightarrow> CalculatorState" where
  "handleOperator rt op s =
     (let lastChar = sliceLast (expression s)
      in if lastChar \<in> set operators \<and> op \<in> set operators
         then updateExpression rt (sliceButLast (expression s) @ op) s
         else updateExpression rt (expression s @ op) s)"

definition needsParentheses :: "jstring list" where
  "needsParentheses =
     [ascii ''sin'', ascii ''cos'', ascii ''tan'', ascii ''ln'', ascii ''log'', [SQRT]]"

definition handleScientificFunction :: "runtime \<Rightarrow> jstring \<Rightarrow> CalculatorState \<Rightarrow> CalculatorState" where
  "handleScientificFunction rt func s =
     (if func = [of_char CHR ''x'', SUPERSCRIPT_TWO]
        then updateExpression rt (expression s @ ascii ''^2'') s
      else if func = ascii ''x^y''
        then updateExpression rt (expression s @ ascii ''^'') s
      else if func \<in> set needsParentheses
        then updateExpression rt (expression s @ func @ ascii ''('') s
      else updateExpression rt (expression s @ func) s)"

definition handleParenthesis :: "runtime \<Rightarrow> jstring \<Rightarrow> CalculatorState \<Rightarrow> CalculatorState" where
  "handleParenthesis rt paren s = updateExpression rt (expression s @ paren) s"

definition handleDecimal :: "runtime \<Rightarrow> CalculatorState \<Rightarrow> CalculatorState" where
  "handleDecimal rt s =
     (let parts = splitOperators (expression s);
          lastPart = last parts
      in if of_char CHR ''.'' \<notin> set lastPart
         then updateExpression rt (expression s @ ascii ''.'') s
         else s)"

definition handleBackspace :: "runtime \<Rightarrow> CalculatorState \<Rightarrow> CalculatorState" where
  "handleBackspace rt s = updateExpression rt (sliceButLast (expression s)) s"

definition handleClearAll :: "CalculatorState \<Rightarrow> CalculatorState" where
  "handleClearAll prev = prev\<lparr>expression := [], result := ascii ''0'', hasError := False\<rparr>"

definition handleCalculate :: "runtime \<Rightarrow> CalculatorState \<Rightarrow> CalculatorState" where
  "handleCalculate rt s =
     (if hasError s then s
      else let r = calculateResult rt (expression s)
           in s\<lparr>expression := (if r = ascii ''Error'' then expression s else r),
                result := r,
                hasError := (r = ascii ''Error'')\<rparr>)"

section \<open>Memory\<close>

text \<open>
  \<^verbatim>\<open>parseFloat\<close> (ECMAScript): leading white space is dropped, then the longest
  prefix that is a \<^verbatim>\<open>StrDecimalLiteral\<close> is read: an optional sign, then
  \<^verbatim>\<open>Infinity\<close>, or digits with an optional fraction, or a point and digits, each
  with an optional exponent part. With no such prefix the result is NaN. The value of
  the literal is rounded to a double by \<open>rnd\<close>.
\<close>

definition isDigit :: "jchar \<Rightarrow> bool" where
  "isDigit c \<longleftrightarrow> of_char CHR ''0'' \<le> c \<and> c \<le> of_char CHR ''9''"

definition digitValue :: "jchar \<Rightarrow> nat" where
  "digitValue c = unat c - 48"

definition decimalValue :: "jstring \<Rightarrow> nat" where
  "decimalValue ds = foldl (\<lambda>a c. 10 * a + digitValue c) 0 ds"

definition pow10 :: "int \<Rightarrow> rat" where
  "pow10 e = (if 0 \<le> e then 10 ^ nat e else 1 / 10 ^ nat (- e))"

definition exponentDigits :: "jstring \<Rightarrow> int" where
  "exponentDigits r = int (decimalValue (takeWhile isDigit r))"

fun exponentPart :: "jstring \<Rightarrow> int" where
  "exponentPart [] = 0"
| "exponentPart [c] = 0"
| "exponentPart (c # d # r) =
     (if c = of_char CHR ''e'' \<or> c = of_char CHR ''E''
      then (if d = of_char CHR ''+'' then exponentDigits r
            else if d = of_char CHR ''-'' then - exponentDigits r
            else exponentDigits (d # r))
      else 0)"

definition strUnsignedDecimalLiteral :: "(rat \<Rightarrow> number) \<Rightarrow> jstring \<Rightarrow> number" where
  "strUnsignedDecimalLiteral rnd t =
     (if prefix (ascii ''Infinity'') t then PosInfinity
      else let ip = takeWhile isDigit t;
               r1 = dropWhile isDigit t;
               hasPoint = (r1 \<noteq> [] \<and> hd r1 = of_char CHR ''.'');
               fp = (if hasPoint then takeWhile isDigit (tl r1) else []);
               r2 = (if hasPoint then dropWhile isDigit (tl r1) else r1)
           in if ip = [] \<and> fp = [] then NaN
              else rnd ((of_nat (decimalValue ip) + of_nat (decimalValue fp) / 10 ^ length fp)
                        * pow10 (exponentPart r2)))"

definition parseFloat :: "(rat \<Rightarrow> number) \<Rightarrow> jstring \<Rightarrow> number" where
  "parseFloat rnd s =
     (case dropWhile isWhiteSpace s of
        [] \<Rightarrow> NaN
      | c # r \<Rightarrow>
          if c = of_char CHR ''-'' then num_neg (strUnsignedDecimalLiteral rnd r)
          else if c = of_char CHR ''+'' then strUnsignedDecimalLiteral rnd r
          else strUnsignedDecimalLiteral rnd (c # r))"

text \<open>\<^verbatim>\<open>handleMemoryFunction\<close>: a \<^verbatim>\<open>switch\<close> on the name of the button, with no
  default case.\<close>

definition handleMemoryFunction :: "runtime \<Rightarrow> jstring \<Rightarrow> CalculatorState \<Rightarrow> CalculatorState" where
  "handleMemoryFunction rt func s =
     (let currentResult = parseFloat (roundToDouble rt) (result s)
      in if func = ascii ''MC'' then s\<lparr>memory := Finite 0\<rparr>
         else if func = ascii ''MR''
           then updateExpression rt (expression s @ numToString rt (memory s)) s
         else if func = ascii ''M+''
           then (if \<not> isNaN currentResult
                 then s\<lparr>memory := num_add (roundToDouble rt) (memory s) currentResult\<rparr>
                 else s)
         else if func = ascii ''M-''
           then (if \<not> isNaN currentResult
                 then s\<lparr>memory := num_sub (roundToDouble rt) (memory s) currentResult\<rparr>
                 else s)
         else s)"

section \<open>Sequences of operations\<close>

text \<open>One constructor for each handler that a button or a key calls, with the argument
  the handler receives. The keyboard handler of the source calls these same handlers,
  with the key or the glyph for the key as the argument.\<close>

datatype event =
    PressNumber jstring
  | PressOperator jstring
  | PressFunction jstring
  | PressParenthesis jstring
  | PressDecimal
  | PressBackspace
  | PressClearAll
  | PressEquals
  | PressMemory jstring

fun handleEvent :: "runtime \<Rightarrow> event \<Rightarrow> CalculatorState \<Rightarrow> CalculatorState" where
  "handleEvent rt (PressNumber num) s = handleNumber rt num s"
| "handleEvent rt (PressOperator op) s = handleOperator rt op s"
| "handleEvent rt (PressFunction func) s = handleScientificFunction rt func s"
| "handleEvent rt (PressParenthesis paren) s = handleParenthesis rt paren s"
| "handleEvent rt PressDecimal s = handleDecimal rt s"
| "handleEvent rt PressBackspace s = handleBackspace rt s"
| "handleEvent rt PressClearAll s = handleClearAll s"
| "handleEvent rt PressEquals s = handleCalculate rt s"
| "handleEvent rt (PressMemory func) s = handleMemoryFunction rt func s"

fun isPressMemory :: "event \<Rightarrow> bool" where
  "isPressMemory (PressMemory func) = True"
| "isPressMemory ev = False"

text \<open>The operations that call \<^verbatim>\<open>updateExpression\<close> or reset the display whatever the
  state is: digits, operators, function tokens, parentheses, backspace, clear-all and
  memory recall. The decimal point does so only when it is accepted, the equals key and
  the other memory buttons never.\<close>

fun reevaluates :: "event \<Rightarrow> bool" where
  "reevaluates (PressNumber num) = True"
| "reevaluates (PressOperator op) = True"
| "reevaluates (PressFunction func) = True"
| "reevaluates (PressParenthesis paren) = True"
| "reevaluates PressBackspace = True"
| "reevaluates PressClearAll = True"
| "reevaluates (PressMemory func) = (func = ascii ''MR'')"
| "reevaluates PressDecimal = False"
| "reevaluates PressEquals = False"

definition run :: "runtime \<Rightarrow> event list \<Rightarrow> CalculatorState \<Rightarrow> CalculatorState" where
  "run rt evs s = foldl (\<lambda>st ev. handleEvent rt ev st) s evs"

definition reachable :: "runtime \<Rightarrow> CalculatorState \<Rightarrow> bool" where
  "reachable rt s \<longleftrightarrow> (\<exists>evs. s = run rt evs initialState)"

section \<open>Standard infix evaluation\<close>

text \<open>
  The evaluator of the library is not code of the calculator. What the specification
  calls the standard infix evaluation of an arithmetic expression is written here, to
  state what \<^verbatim>\<open>calculateResult\<close> returns when the library computes it. The
  expressions are those of the grammar
  \<^verbatim>\<open>
    expr   ::= term (('+' | '-') term)*
    term   ::= factor (('*' | '/') factor)*
    factor ::= digits | '(' expr ')' | '-' factor | '+' factor
  \<close>
  with the binary operators associating to the left. The arithmetic is that of IEEE
  doubles: each literal and each result is rounded by \<open>rnd\<close>, a division by zero gives
  an infinity or NaN.
\<close>

fun num_mul :: "(rat \<Rightarrow> number) \<Rightarrow> number \<Rightarrow> number \<Rightarrow> number" where
  "num_mul rnd NaN b = NaN"
| "num_mul rnd a NaN = NaN"
| "num_mul rnd (Finite a) (Finite b) = rnd (a * b)"
| "num_mul rnd (Finite a) b = (if a = 0 then NaN else if 0 < a then b else num_neg b)"
| "num_mul rnd a (Finite b) = (if b = 0 then NaN else if 0 < b then a else num_neg a)"
| "num_mul rnd a b = (if a = b then PosInfinity else NegInfinity)"

fun num_div :: "(rat \<Rightarrow> number) \<Rightarrow> number \<Rightarrow> number \<Rightarrow> number" where
  "num_div rnd NaN b = NaN"
| "num_div rnd a NaN = NaN"
| "num_div rnd (Finite a) (Finite b) =
     (if b = 0 then (if a = 0 then NaN else if 0 < a then PosInfinity else NegInfinity)
      else rnd (a / b))"
| "num_div rnd (Finite a) b = Finite 0"
| "num_div rnd a (Finite b) = (if 0 \<le> b then a else num_neg a)"
| "num_div rnd a b = NaN"

text \<open>
  A recursive-descent reading of the grammar. \<open>infixParse rnd n g s\<close> reads the
  category \<open>g\<close> at the front of \<open>s\<close> and returns its value and the rest of the
  string, or \<open>None\<close> when \<open>s\<close> does not start with one. \<open>NExprRest v\<close> and
  \<open>NTermRest v\<close> are the repetitions of the grammar, with the value \<open>v\<close> read so far.
  The bound \<open>n\<close> on the depth of the calls makes the recursion primitive.
\<close>

datatype category = NExpr | NExprRest number | NTerm | NTermRest number | NFactor

primrec infixParse ::
  "(rat \<Rightarrow> number) \<Rightarrow> nat \<Rightarrow> category \<Rightarrow> jstring \<Rightarrow> (number \<times> jstring) option" where
  "infixParse rnd 0 g s = None"
| "infixParse rnd (Suc n) g s =
     (case g of
        NExpr \<Rightarrow>
          (case infixParse rnd n NTerm s of
             None \<Rightarrow> None
           | Some (v, r) \<Rightarrow> infixParse rnd n (NExprRest v) r)
      | NExprRest v \<Rightarrow>
          (case s of
             [] \<Rightarrow> Some (v, [])
           | c # r \<Rightarrow>
               if c = of_char CHR ''+'' then
                 (case infixParse rnd n NTerm r of
                    None \<Rightarrow> None
                  | Some (w, r') \<Rightarrow> infixParse rnd n (NExprRest (num_add rnd v w)) r')
               else if c = of_char CHR ''-'' then
                 (case infixParse rnd n NTerm r of
                    None \<Rightarrow> None
                  | Some (w, r') \<Rightarrow> infixParse rnd n (NExprRest (num_sub rnd v w)) r')
               else Some (v, s))
      | NTerm \<Rightarrow>
          (case infixParse rnd n NFactor s of
             None \<Rightarrow> None
           | Some (v, r) \<Rightarrow> infixParse rnd n (NTermRest v) r)
      | NTermRest v \<Rightarrow>
          (case s of
             [] \<Rightarrow> Some (v, [])
           | c # r \<Rightarrow>
               if c = of_char CHR ''*'' then
                 (case infixParse rnd n NFactor r of
                    None \<Rightarrow> None
                  | Some (w, r') \<Rightarrow> infixParse rnd n (NTermRest (num_mul rnd v w)) r')
               else if c = of_char CHR ''/'' then
                 (case infixParse rnd n NFactor r of
                    None \<Rightarrow> None
                  | Some (w, r') \<Rightarrow> infixParse rnd n (NTermRest (num_div rnd v w)) r')
               else Some (v, s))
      | NFactor \<Rightarrow>
          (case s of
             [] \<Rightarrow> None
           | c # r \<Rightarrow>
               if isDigit c then
                 Some (rnd (of_nat (decimalValue (takeWhile isDigit s))), dropWhile isDigit s)
               else if c = of_char CHR ''('' then
                 (case infixParse rnd n NExpr r of
                    None \<Rightarrow> None
                  | Some (v, r') \<Rightarrow>
                      (case r' of
                         [] \<Rightarrow> None
                       | d # r'' \<Rightarrow> if d = of_char CHR '')'' then Some (v, r'') else None))
               else if c = of_char CHR ''-'' then
                 (case infixParse rnd n NFactor r of
                    None \<Rightarrow> None
                  | Some (v, r') \<Rightarrow> Some (num_neg v, r'))
               else if c = of_char CHR ''+'' then infixParse rnd n NFactor r
               else None))"

text \<open>The value of a whole string: an expression with nothing left over. The bound is
  four calls for each character and one more. It is never the bound that decides the
  value: \<open>callsNeeded g k\<close> calls are enough to read a \<open>g\<close> of \<open>k\<close> characters
  (\<open>infixValue_any_bound\<close> below), and the categories of \<open>readsCharacter\<close> read at
  least one.\<close>

definition infixValue :: "(rat \<Rightarrow> number) \<Rightarrow> jstring \<Rightarrow> number option" where
  "infixValue rnd s =
     (case infixParse rnd (Suc (4 * length s)) NExpr s of
        None \<Rightarrow> None
      | Some (v, r) \<Rightarrow> if r = [] then Some v else None)"

fun callsNeeded :: "category \<Rightarrow> nat \<Rightarrow> nat" where
  "callsNeeded NFactor k = 2 * k - 1"
| "callsNeeded NTerm k = 2 * k"
| "callsNeeded (NTermRest v) k = 2 * k + 1"
| "callsNeeded NExpr k = 2 * k + 1"
| "callsNeeded (NExprRest v) k = 2 * k + 2"

fun readsCharacter :: "category \<Rightarrow> bool" where
  "readsCharacter (NTermRest v) = False"
| "readsCharacter (NExprRest v) = False"
| "readsCharacter g = True"

text \<open>The characters of an arithmetic expression as the calculator displays it (the
  four operators as glyphs or in ASCII), and the character of the evaluator's syntax
  that stands for each.\<close>

definition arithGlyph :: "jchar \<Rightarrow> bool" where
  "arithGlyph c \<longleftrightarrow>
     isDigit c \<or> c = of_char CHR ''+'' \<or> c = MINUS \<or> c = TIMES \<or> c = DIVIDE
     \<or> c = of_char CHR ''-'' \<or> c = of_char CHR ''*'' \<or> c = of_char CHR ''/''
     \<or> c = of_char CHR ''('' \<or> c = of_char CHR '')''"

definition toEvaluatorChar :: "jchar \<Rightarrow> jchar" where
  "toEvaluatorChar c =
     (if c = TIMES then of_char CHR ''*''
      else if c = DIVIDE then of_char CHR ''/''
      else if c = MINUS then of_char CHR ''-''
      else c)"

text \<open>The characters of the evaluator's syntax for such an expression.\<close>

definition evaluatorChar :: "jchar \<Rightarrow> bool" where
  "evaluatorChar c \<longleftrightarrow> isDigit c \<or> c \<in> of_char ` set ''+-*/()''"

section \<open>Fixed notation\<close>


section \<open>A runtime for the examples\<close>

text \<open>
  The examples below run on a concrete runtime. Its evaluator is the standard infix
  evaluation, and beside it the values that the library and the builtins of JavaScript
  return at the strings and numbers the examples use:
  \<^item> \<^verbatim>\<open>evaluate("log10(100)")\<close> is 2;
  \<^item> \<^verbatim>\<open>evaluate("0.00000099999999")\<close> is the double nearest to that decimal,
    \<open>1180591608911495 / 2\<^sup>7\<^sup>0\<close>, and \<^verbatim>\<open>toExponential(6)\<close> of it is
    \<^verbatim>\<open>"1.000000e-6"\<close>;
  \<^item> \<^verbatim>\<open>evaluate("1.000000e-6")\<close> is the double \<^verbatim>\<open>1e-6\<close>, and
    \<^verbatim>\<open>format\<close> of it at precision 10 is \<^verbatim>\<open>"1e-6"\<close>;
  \<^item> \<^verbatim>\<open>format\<close> of 14, of 17.5 and of 2 at precision 10 are \<^verbatim>\<open>"14"\<close>,
    \<^verbatim>\<open>"17.5"\<close> and \<^verbatim>\<open>"2"\<close>; \<^verbatim>\<open>(0).toString()\<close> is \<^verbatim>\<open>"0"\<close>;
  \<^item> \<^verbatim>\<open>format\<close> of 9999999999 at precision 10 is \<^verbatim>\<open>"9.999999999e+9"\<close>: the
    default notation of the library prints an exponent from \<open>10\<^sup>5\<close> on.
  Every sum and literal of the examples is a double, so no rounding takes place.
\<close>

definition lit_99999999em14 :: number where
  "lit_99999999em14 = Finite (1180591608911495 / 2 ^ 70)"

definition demoEvaluate :: "jstring \<Rightarrow> number option" where
  "demoEvaluate s =
     (if s = ascii ''log10(100)'' then Some (Finite 2)
      else if s = ascii ''0.00000099999999'' then Some lit_99999999em14
      else if s = ascii ''1.000000e-6'' then Some lit_1em6
      else infixValue Finite s)"

definition demoFormat :: "number \<Rightarrow> nat \<Rightarrow> jstring" where
  "demoFormat v p =
     (if v = Finite 14 then ascii ''14''
      else if v = Finite (35 / 2) then ascii ''17.5''
      else if v = Finite 2 then ascii ''2''
      else if v = lit_1em6 then ascii ''1e-6''
      else if v = Finite 9999999999 then ascii ''9.999999999e+9''
      else [])"

definition demoToExponential :: "number \<Rightarrow> nat \<Rightarrow> jstring" where
  "demoToExponential v d =
     (if v = lit_99999999em14 \<and> d = 6 then ascii ''1.000000e-6'' else [])"

definition demoToString :: "number \<Rightarrow> jstring" where
  "demoToString v = (if v = Finite 0 then ascii ''0'' else [])"

definition demoRuntime :: runtime where
  "demoRuntime =
     \<lparr>evaluate = demoEvaluate,
      mathjs_format = demoFormat,
      toExponential = demoToExponential,
      numToString = demoToString,
      roundToDouble = Finite\<rparr>"

text \<open>The keys that enter \<^verbatim>\<open>0.00000099999999\<close> and then the equals key.\<close>

definition smallNumberKeys :: "event list" where
  "smallNumberKeys =
     [PressNumber (ascii ''0''), PressDecimal,
      PressNumber (ascii ''0''), PressNumber (ascii ''0''), PressNumber (ascii ''0''),
      PressNumber (ascii ''0''), PressNumber (ascii ''0''), PressNumber (ascii ''0''),
      PressNumber (ascii ''9''), PressNumber (ascii ''9''), PressNumber (ascii ''9''),
      PressNumber (ascii ''9''), PressNumber (ascii ''9''), PressNumber (ascii ''9''),
      PressNumber (ascii ''9''), PressNumber (ascii ''9''),
      PressEquals]"

section \<open>Properties of the helpers\<close>

lemmas glyphs = TIMES_def DIVIDE_def MINUS_def PI_def SQRT_def SUPERSCRIPT_TWO_def

text \<open>A string trims to the empty string exactly when all of it is white space.\<close>

lemma trim_empty_iff: "trim s = [] \<longleftrightarrow> list_all isWhiteSpace s"
proof
  assume "trim s = []"
  then have all: "\<forall>x\<in>set (dropWhile isWhiteSpace s). isWhiteSpace x"
    by (simp add: trim_def)
  have "dropWhile isWhiteSpace s = []"
  proof (rule ccontr)
    assume ne: "dropWhile isWhiteSpace s \<noteq> []"
    then have "\<not> isWhiteSpace (hd (dropWhile isWhiteSpace s))"
      by (rule hd_dropWhile)
    moreover have "hd (dropWhile isWhiteSpace s) \<in> set (dropWhile isWhiteSpace s)"
      using ne by simp
    ultimately show False using all by blast
  qed
  then show "list_all isWhiteSpace s" by (simp add: list_all_iff)
next
  assume "list_all isWhiteSpace s"
  then have e: "dropWhile isWhiteSpace s = []"
    by (simp only: dropWhile_eq_Nil_conv list_all_iff)
  show "trim s = []" unfolding trim_def e by simp
qed

text \<open>What \<^verbatim>\<open>updateExpression\<close> stores; a second call overwrites the first.\<close>

lemma updateExpression_fields:
  "expression (updateExpression rt e s) = e"
  "result (updateExpression rt e s) = calculateResult rt e"
  "memory (updateExpression rt e s) = memory s"
  "hasError (updateExpression rt e s) = (calculateResult rt e = ascii ''Error'')"
  by (simp_all add: updateExpression_def Let_def)

lemma updateExpression_twice:
  "updateExpression rt e2 (updateExpression rt e1 s) = updateExpression rt e2 s"
  by (simp add: updateExpression_def Let_def)

text \<open>
  Replacing a pattern by itself changes nothing; a pattern whose first character does
  not occur is not found; and a replacement passes over a point of the string where no
  match can span: the character after the point is none of the pattern's characters
  after its first.
\<close>

lemma replaceAll_same: "replaceAll p p s = s"
proof -
  have "rep = p \<Longrightarrow> replaceAll p rep s = s" for rep
  proof (induction p rep s rule: replaceAll.induct)
    case (3 p ps rep c cs)
    show ?case
    proof (cases "prefix (p # ps) (c # cs)")
      case True
      then obtain zs where zs: "cs = ps @ zs" and pc: "p = c"
        by (auto simp: prefix_def)
      have "replaceAll (p # ps) rep (drop (length ps) cs) = drop (length ps) cs"
        using "3.IH"(1) [OF True "3.prems"] .
      with True zs pc "3.prems" show ?thesis by simp
    next
      case False
      have "replaceAll (p # ps) rep cs = cs"
        using "3.IH"(2) [OF False "3.prems"] .
      with False show ?thesis by auto
    qed
  qed simp_all
  then show ?thesis by simp
qed

lemma replaceAll_absent: "p \<notin> set s \<Longrightarrow> replaceAll (p # ps) rep s = s"
  by (induction s) auto

lemma replaceAll_append:
  assumes "c \<noteq> []" and "hd c \<notin> set ps"
  shows "replaceAll (p # ps) rep (a @ c)
         = replaceAll (p # ps) rep a @ replaceAll (p # ps) rep c"
proof (induction a rule: length_induct)
  case (1 a)
  show ?case
  proof (cases a)
    case Nil
    then show ?thesis by simp
  next
    case (Cons x xs)
    show ?thesis
    proof (cases "prefix (p # ps) (x # xs)")
      case True
      then obtain zs where zs: "xs = ps @ zs" and px: "p = x"
        by (auto simp: prefix_def)
      have "length zs < length a" using Cons zs by simp
      then have "replaceAll (p # ps) rep (zs @ c)
                 = replaceAll (p # ps) rep zs @ replaceAll (p # ps) rep c"
        using 1 by blast
      then show ?thesis using Cons zs px by simp
    next
      case False
      have "\<not> prefix (p # ps) (x # xs @ c)"
      proof
        assume pre: "prefix (p # ps) (x # xs @ c)"
        then have px: "p = x" and "prefix ps (xs @ c)" by simp_all
        then have "prefix ps xs \<or> (\<exists>us. ps = xs @ us \<and> prefix us c)"
          by (simp add: prefix_append)
        moreover have "\<not> prefix ps xs" using False px by simp
        ultimately obtain us where us: "ps = xs @ us" "prefix us c" by blast
        with \<open>\<not> prefix ps xs\<close> have "us \<noteq> []" by auto
        with us assms(1) have "hd c = hd us" by (cases us; cases c) auto
        with \<open>us \<noteq> []\<close> us(1) have "hd c \<in> set ps" by (cases us) auto
        with assms(2) show False by blast
      qed
      moreover have "length xs < length a" using Cons by simp
      then have "replaceAll (p # ps) rep (xs @ c)
                 = replaceAll (p # ps) rep xs @ replaceAll (p # ps) rep c"
        using 1 by blast
      ultimately show ?thesis using Cons False by (simp del: Cons_prefix_Cons)
    qed
  qed
qed

text \<open>The formatter on a finite number, with the comparisons as inequalities of
  rationals.\<close>

lemma formatResult_Finite:
  "formatResult rt (Finite q) =
     (if 10 ^ 10 \<le> \<bar>q\<bar> \<or> (0 < \<bar>q\<bar> \<and> \<bar>q\<bar> < double_1em6)
      then toExponential rt (Finite q) 6
      else mathjs_format rt (Finite q) 10)"
  by (auto simp: formatResult_def lit_1e10_def lit_1em6_def num_strict_neq_def)

text \<open>The literals are doubles, 53 bits over a power of two, and the nearest ones: each
  is within half a unit in the last place of the decimal it stands for.\<close>

lemma literal_doubles:
  "double_1em6 = 4722366482869645 / 2 ^ 72"
  "(2::rat) ^ 52 \<le> 4722366482869645" "(4722366482869645::rat) < 2 ^ 53"
  "\<bar>double_1em6 - 1 / 10 ^ 6\<bar> \<le> 1 / 2 ^ 73"
  "lit_1em7 = Finite (7555786372591432 / 2 ^ 76)"
  "(2::rat) ^ 52 \<le> 7555786372591432" "(7555786372591432::rat) < 2 ^ 53"
  "\<bar>7555786372591432 / 2 ^ 76 - 1 / 10 ^ 7\<bar> \<le> (1 / 2 ^ 77 :: rat)"
  "lit_1em3 = Finite (4611686018427388 / 2 ^ 62)"
  "(2::rat) ^ 52 \<le> 4611686018427388" "(4611686018427388::rat) < 2 ^ 53"
  "\<bar>4611686018427388 / 2 ^ 62 - 1 / 10 ^ 3\<bar> \<le> (1 / 2 ^ 63 :: rat)"
  by (simp_all add: double_1em6_def lit_1em7_def lit_1em3_def)

text \<open>The runtime of the examples at the strings the examples use.\<close>

lemma demo_fields:
  "evaluate demoRuntime = demoEvaluate"
  "mathjs_format demoRuntime = demoFormat"
  "toExponential demoRuntime = demoToExponential"
  "numToString demoRuntime = demoToString"
  "roundToDouble demoRuntime = Finite"
  by (simp_all add: demoRuntime_def)

lemma demoEvaluate_5div0: "demoEvaluate (ascii ''5/0'') = Some PosInfinity"
  by code_simp

lemma demoEvaluate_2p3t4: "demoEvaluate (ascii ''2+3*4'') = Some (Finite 14)"
  by code_simp

lemma demoEvaluate_2p: "demoEvaluate (ascii ''2+'') = None"
  by code_simp

lemma mathExpr_examples:
  "mathExpr (ascii ''2+3*4'') = ascii ''2+3*4''"
  "mathExpr (ascii ''2+'') = ascii ''2+''"
  "mathExpr (ascii ''5/0'') = ascii ''5/0''"
  by (simp_all add: mathExpr_def replaceFunctions_def replaceSymbols_def ascii_def glyphs)

lemma calculateResult_demo_14:
  "calculateResult demoRuntime (ascii ''2+3*4'') = ascii ''14''"
proof -
  have "trim (ascii ''2+3*4'') \<noteq> []"
    by (simp add: trim_def ascii_def isWhiteSpace_def)
  then show ?thesis
    by (simp add: calculateResult_def mathExpr_examples demo_fields demoEvaluate_2p3t4
        formatResult_Finite double_1em6_def demoFormat_def)
qed

lemma demoEvaluate_glyphs: "demoEvaluate (ascii ''(2+3)*4-10/4'') = Some (Finite (35 / 2))"
  by code_simp

lemma infixValue_examples:
  "infixValue Finite (ascii ''2+3*4'') = Some (Finite 14)"
  "infixValue Finite (ascii ''(2+3)*4-10/4'') = Some (Finite (35 / 2))"
  by code_simp+

section \<open>The evaluator adapter is total\<close>

text \<open>
  Claim C2. \<^verbatim>\<open>calculateResult\<close> returns a string on every input: \<^verbatim>\<open>"0"\<close> when
  the input is empty or white space only; otherwise \<^verbatim>\<open>"Error"\<close> when the evaluator
  throws and when it returns a value that is not finite, and the formatted value when it
  is finite. The failure of the evaluator never leaves the function: it is the case
  \<open>None\<close>, and the result is a string there too.
\<close>

theorem calculateResult_total:
  "(list_all isWhiteSpace e \<longrightarrow> calculateResult rt e = ascii ''0'')
   \<and> (\<not> list_all isWhiteSpace e \<longrightarrow> evaluate rt (mathExpr e) = None
        \<longrightarrow> calculateResult rt e = ascii ''Error'')
   \<and> (\<not> list_all isWhiteSpace e \<longrightarrow> evaluate rt (mathExpr e) = Some v \<longrightarrow> \<not> isFinite v
        \<longrightarrow> calculateResult rt e = ascii ''Error'')
   \<and> (\<not> list_all isWhiteSpace e \<longrightarrow> evaluate rt (mathExpr e) = Some v \<longrightarrow> isFinite v
        \<longrightarrow> calculateResult rt e = formatResult rt v)"
  by (simp add: calculateResult_def trim_empty_iff formatResult_def)

theorem calculateResult_total_witness:
  "calculateResult demoRuntime (ascii ''  '') = ascii ''0''
   \<and> calculateResult demoRuntime (ascii ''2+'') = ascii ''Error''
   \<and> calculateResult demoRuntime (ascii ''5/0'') = ascii ''Error''
   \<and> calculateResult demoRuntime (ascii ''2+3*4'') = ascii ''14''"
proof -
  have blank: "list_all isWhiteSpace (ascii ''  '')"
    by (simp add: ascii_def isWhiteSpace_def)
  have nb: "\<not> list_all isWhiteSpace (ascii ''2+'')" "\<not> list_all isWhiteSpace (ascii ''5/0'')"
    "\<not> list_all isWhiteSpace (ascii ''2+3*4'')"
    by (simp_all add: ascii_def isWhiteSpace_def)
  have f: "formatResult demoRuntime (Finite 14) = ascii ''14''"
    by (simp add: formatResult_Finite double_1em6_def demo_fields demoFormat_def)
  show ?thesis
    using calculateResult_total [of "ascii ''  ''" demoRuntime]
      calculateResult_total [of "ascii ''2+''" demoRuntime]
      calculateResult_total [of "ascii ''5/0''" demoRuntime PosInfinity]
      calculateResult_total [of "ascii ''2+3*4''" demoRuntime "Finite 14"]
      blank nb f
    by (simp add: mathExpr_examples demo_fields demoEvaluate_5div0 demoEvaluate_2p3t4
        demoEvaluate_2p)
qed

section \<open>The result formatter\<close>



section \<open>Clearing and the memory\<close>

lemma handleEvent_memory:
  "\<not> isPressMemory ev \<Longrightarrow> memory (handleEvent rt ev s) = memory s"
  by (cases ev)
     (simp_all add: handleNumber_def handleOperator_def handleScientificFunction_def
        handleParenthesis_def handleDecimal_def handleBackspace_def handleClearAll_def
        handleCalculate_def updateExpression_fields Let_def)

lemma run_memory:
  "list_all (\<lambda>ev. \<not> isPressMemory ev) evs \<Longrightarrow> memory (run rt evs s) = memory s"
  unfolding run_def
  by (induction evs arbitrary: s) (simp_all add: handleEvent_memory)

text \<open>
  Claim C7. Clear-all sets the expression to the empty string, the result to
  \<^verbatim>\<open>"0"\<close> and \<^verbatim>\<open>hasError\<close> to false, and keeps the memory. The memory is the
  same after any sequence of operations that presses no memory button. \<^verbatim>\<open>MC\<close> sets
  the memory to 0 and keeps the expression, the result and \<^verbatim>\<open>hasError\<close>.
\<close>

theorem clearAll_keeps_memory:
  "handleClearAll s = s\<lparr>expression := [], result := ascii ''0'', hasError := False\<rparr>
   \<and> memory (handleClearAll s) = memory s
   \<and> (list_all (\<lambda>ev. \<not> isPressMemory ev) evs \<longrightarrow> memory (run rt evs s) = memory s)
   \<and> handleMemoryFunction rt (ascii ''MC'') s = s\<lparr>memory := Finite 0\<rparr>
   \<and> expression (handleMemoryFunction rt (ascii ''MC'') s) = expression s
   \<and> result (handleMemoryFunction rt (ascii ''MC'') s) = result s
   \<and> hasError (handleMemoryFunction rt (ascii ''MC'') s) = hasError s"
  by (simp add: handleClearAll_def handleMemoryFunction_def Let_def run_memory)

theorem clearAll_keeps_memory_witness:
  "memory (run demoRuntime [PressNumber (ascii ''7''), PressClearAll, PressEquals]
            (initialState\<lparr>memory := Finite 3\<rparr>)) = Finite 3
   \<and> handleClearAll \<lparr>expression = ascii ''7'', result = ascii ''7'', memory = Finite 3,
                      hasError = False\<rparr>
       = \<lparr>expression = [], result = ascii ''0'', memory = Finite 3, hasError = False\<rparr>"
  using clearAll_keeps_memory [of "\<lparr>expression = ascii ''7'', result = ascii ''7'',
      memory = Finite 3, hasError = False\<rparr>" "[PressNumber (ascii ''7''), PressClearAll, PressEquals]"
      demoRuntime]
    clearAll_keeps_memory [of "initialState\<lparr>memory := Finite 3\<rparr>"
      "[PressNumber (ascii ''7''), PressClearAll, PressEquals]" demoRuntime]
  by simp

section \<open>Appending an operator\<close>

lemma sliceLast_in_operators:
  "sliceLast e \<in> set operators
   \<longleftrightarrow> e \<noteq> [] \<and> last e \<in> {of_char CHR ''+'', MINUS, TIMES, DIVIDE}"
  by (auto simp: sliceLast_def operators_def ascii_def)

text \<open>
  Claim C6. When the expression ends with one of the glyphs plus, U+2212, U+00D7, U+00F7
  and the new input is one of these operators, \<^verbatim>\<open>handleOperator\<close> replaces the last
  character by the new operator; otherwise it appends the operator. From \<^verbatim>\<open>"5+"\<close>,
  the operator U+00D7 gives \<^verbatim>\<open>"5"\<close> followed by U+00D7.
\<close>

theorem handleOperator_replaces:
  "handleOperator rt op s =
     updateExpression rt
       (if expression s \<noteq> [] \<and> last (expression s) \<in> {of_char CHR ''+'', MINUS, TIMES, DIVIDE}
           \<and> op \<in> {ascii ''+'', [MINUS], [TIMES], [DIVIDE]}
        then butlast (expression s) @ op
        else expression s @ op) s
   \<and> expression (handleOperator rt op s) =
       (if expression s \<noteq> [] \<and> last (expression s) \<in> {of_char CHR ''+'', MINUS, TIMES, DIVIDE}
           \<and> op \<in> {ascii ''+'', [MINUS], [TIMES], [DIVIDE]}
        then butlast (expression s) @ op
        else expression s @ op)
   \<and> (expression s = ascii ''5+'' \<longrightarrow>
        expression (handleOperator rt [TIMES] s) = ascii ''5'' @ [TIMES])"
proof -
  have ops: "op \<in> set operators \<longleftrightarrow> op \<in> {ascii ''+'', [MINUS], [TIMES], [DIVIDE]}" for op
    by (simp add: operators_def)
  have *: "handleOperator rt op s =
     updateExpression rt
       (if expression s \<noteq> [] \<and> last (expression s) \<in> {of_char CHR ''+'', MINUS, TIMES, DIVIDE}
           \<and> op \<in> {ascii ''+'', [MINUS], [TIMES], [DIVIDE]}
        then butlast (expression s) @ op
        else expression s @ op) s" for op
  proof -
    have 1: "(sliceLast (expression s) \<in> set operators \<and> op \<in> set operators)
             = (expression s \<noteq> []
                \<and> last (expression s) \<in> {of_char CHR ''+'', MINUS, TIMES, DIVIDE}
                \<and> op \<in> {ascii ''+'', [MINUS], [TIMES], [DIVIDE]})"
      by (simp only: sliceLast_in_operators ops [of op] conj_assoc)
    show ?thesis
      unfolding handleOperator_def Let_def 1 sliceButLast_def by simp
  qed
  have ex: "expression s = ascii ''5+'' \<longrightarrow>
        expression (handleOperator rt [TIMES] s) = ascii ''5'' @ [TIMES]"
    by (simp add: * updateExpression_fields ascii_def)
  have "expression (handleOperator rt op s) =
       (if expression s \<noteq> [] \<and> last (expression s) \<in> {of_char CHR ''+'', MINUS, TIMES, DIVIDE}
           \<and> op \<in> {ascii ''+'', [MINUS], [TIMES], [DIVIDE]}
        then butlast (expression s) @ op
        else expression s @ op)"
    by (simp only: * updateExpression_fields)
  with * [of op] ex show ?thesis by blast
qed

theorem handleOperator_replaces_witness:
  "expression (handleOperator demoRuntime [TIMES]
      \<lparr>expression = ascii ''5+'', result = ascii ''Error'', memory = Finite 0, hasError = True\<rparr>)
   = ascii ''5'' @ [TIMES]"
proof -
  let ?s = "\<lparr>expression = ascii ''5+'', result = ascii ''Error'', memory = Finite 0,
             hasError = True\<rparr>"
  have "expression ?s = ascii ''5+'' \<longrightarrow>
        expression (handleOperator demoRuntime [TIMES] ?s) = ascii ''5'' @ [TIMES]"
    using handleOperator_replaces [of demoRuntime "[TIMES]" ?s] by blast
  then show ?thesis by simp
qed

section \<open>Adding to and subtracting from the memory\<close>

lemma parseFloat_14: "parseFloat Finite (ascii ''14'') = Finite 14"
  by (simp add: parseFloat_def strUnsignedDecimalLiteral_def ascii_def isWhiteSpace_def
      isDigit_def decimalValue_def digitValue_def pow10_def)

lemma parseFloat_Error: "parseFloat rnd (ascii ''Error'') = NaN"
  by (simp add: parseFloat_def strUnsignedDecimalLiteral_def ascii_def isWhiteSpace_def
      isDigit_def)

text \<open>
  Claim C10. When \<^verbatim>\<open>parseFloat\<close> of the result is NaN, as it is for the result
  \<^verbatim>\<open>"Error"\<close>, \<^verbatim>\<open>M+\<close> and \<^verbatim>\<open>M-\<close> leave the whole state unchanged.
  Otherwise \<^verbatim>\<open>M+\<close> adds the parsed result to the memory and \<^verbatim>\<open>M-\<close> subtracts
  it, and nothing else of the state changes.
\<close>

theorem memory_add_subtract:
  "(isNaN (parseFloat (roundToDouble rt) (result s)) \<longrightarrow>
      handleMemoryFunction rt (ascii ''M+'') s = s \<and> handleMemoryFunction rt (ascii ''M-'') s = s)
   \<and> (\<not> isNaN (parseFloat (roundToDouble rt) (result s)) \<longrightarrow>
      handleMemoryFunction rt (ascii ''M+'') s =
        s\<lparr>memory := num_add (roundToDouble rt) (memory s)
                      (parseFloat (roundToDouble rt) (result s))\<rparr>
      \<and> handleMemoryFunction rt (ascii ''M-'') s =
        s\<lparr>memory := num_sub (roundToDouble rt) (memory s)
                      (parseFloat (roundToDouble rt) (result s))\<rparr>)
   \<and> (result s = ascii ''Error'' \<longrightarrow>
      handleMemoryFunction rt (ascii ''M+'') s = s \<and> handleMemoryFunction rt (ascii ''M-'') s = s)"
proof -
  have ne: "ascii ''M+'' \<noteq> ascii ''MC''" "ascii ''M+'' \<noteq> ascii ''MR''"
    "ascii ''M-'' \<noteq> ascii ''MC''" "ascii ''M-'' \<noteq> ascii ''MR''" "ascii ''M-'' \<noteq> ascii ''M+''"
    by (simp_all add: ascii_def)
  show ?thesis
    by (simp add: handleMemoryFunction_def Let_def ne parseFloat_Error)
qed

theorem memory_add_subtract_witness:
  "handleMemoryFunction demoRuntime (ascii ''M+'')
      \<lparr>expression = ascii ''2+'', result = ascii ''Error'', memory = Finite 1, hasError = True\<rparr>
   = \<lparr>expression = ascii ''2+'', result = ascii ''Error'', memory = Finite 1, hasError = True\<rparr>
   \<and> handleMemoryFunction demoRuntime (ascii ''M+'')
      \<lparr>expression = ascii ''2+3*4'', result = ascii ''14'', memory = Finite 1, hasError = False\<rparr>
     = \<lparr>expression = ascii ''2+3*4'', result = ascii ''14'', memory = Finite 15, hasError = False\<rparr>
   \<and> handleMemoryFunction demoRuntime (ascii ''M-'')
      \<lparr>expression = ascii ''2+3*4'', result = ascii ''14'', memory = Finite 1, hasError = False\<rparr>
     = \<lparr>expression = ascii ''2+3*4'', result = ascii ''14'', memory = Finite (- 13), hasError = False\<rparr>"
  using memory_add_subtract [of demoRuntime
      "\<lparr>expression = ascii ''2+'', result = ascii ''Error'', memory = Finite 1, hasError = True\<rparr>"]
    memory_add_subtract [of demoRuntime
      "\<lparr>expression = ascii ''2+3*4'', result = ascii ''14'', memory = Finite 1, hasError = False\<rparr>"]
  by (simp add: demo_fields parseFloat_14 parseFloat_Error num_sub_def)

section \<open>The equals key after an error\<close>

lemma mathExpr_5div0: "mathExpr (ascii ''5'' @ [DIVIDE] @ ascii ''0'') = ascii ''5/0''"
  by (simp add: mathExpr_def replaceFunctions_def replaceSymbols_def ascii_def glyphs)

lemma trim_5div0: "trim (ascii ''5'' @ [DIVIDE] @ ascii ''0'') \<noteq> []"
  by (simp add: trim_def ascii_def isWhiteSpace_def glyphs)

lemma run_5div0:
  "run rt [PressNumber (ascii ''5''), PressOperator [DIVIDE], PressNumber (ascii ''0'')]
     initialState
   = updateExpression rt (ascii ''5'' @ [DIVIDE] @ ascii ''0'') initialState"
proof -
  have "sliceLast (ascii ''5'') \<notin> set operators"
    by (simp add: sliceLast_def operators_def ascii_def glyphs)
  then show ?thesis
    by (simp add: run_def handleNumber_def handleOperator_def Let_def updateExpression_fields
        updateExpression_twice initialState_def)
qed

text \<open>
  Claim C4. With \<^verbatim>\<open>hasError\<close> set, \<^verbatim>\<open>handleCalculate\<close> changes nothing. It keeps
  the expression when the evaluation fails, and never stores \<^verbatim>\<open>"Error"\<close> as the
  expression. When the evaluator throws on \<^verbatim>\<open>5/0\<close> or returns a value that is not
  finite (the IEEE quotient is an infinity), entering 5, U+00F7, 0 gives the result
  \<^verbatim>\<open>"Error"\<close> with \<^verbatim>\<open>hasError\<close> set, and the equals key leaves the expression
  as it is.
\<close>

theorem equals_after_error:
  "(hasError s \<longrightarrow> handleCalculate rt s = s)
   \<and> (calculateResult rt (expression s) = ascii ''Error'' \<longrightarrow>
        expression (handleCalculate rt s) = expression s)
   \<and> (expression s \<noteq> ascii ''Error'' \<longrightarrow> expression (handleCalculate rt s) \<noteq> ascii ''Error'')
   \<and> ((case evaluate rt (ascii ''5/0'') of None \<Rightarrow> True | Some v \<Rightarrow> \<not> isFinite v) \<longrightarrow>
        expression (run rt [PressNumber (ascii ''5''), PressOperator [DIVIDE],
                            PressNumber (ascii ''0'')] initialState)
          = ascii ''5'' @ [DIVIDE] @ ascii ''0''
        \<and> result (run rt [PressNumber (ascii ''5''), PressOperator [DIVIDE],
                           PressNumber (ascii ''0'')] initialState) = ascii ''Error''
        \<and> hasError (run rt [PressNumber (ascii ''5''), PressOperator [DIVIDE],
                             PressNumber (ascii ''0'')] initialState)
        \<and> expression (run rt [PressNumber (ascii ''5''), PressOperator [DIVIDE],
                               PressNumber (ascii ''0''), PressEquals] initialState)
          = ascii ''5'' @ [DIVIDE] @ ascii ''0'')"
proof -
  define E where "E = ascii ''5'' @ [DIVIDE] @ ascii ''0''"
  define s3 where "s3 = run rt [PressNumber (ascii ''5''), PressOperator [DIVIDE],
                            PressNumber (ascii ''0'')] initialState"
  have a: "hasError s \<longrightarrow> handleCalculate rt s = s"
    by (simp add: handleCalculate_def)
  have b: "calculateResult rt (expression s) = ascii ''Error'' \<longrightarrow>
        expression (handleCalculate rt s) = expression s"
    by (simp add: handleCalculate_def Let_def)
  have c: "expression s \<noteq> ascii ''Error'' \<longrightarrow> expression (handleCalculate rt s) \<noteq> ascii ''Error''"
    by (simp add: handleCalculate_def Let_def)
  have s3: "s3 = updateExpression rt E initialState"
    unfolding s3_def E_def by (rule run_5div0)
  have s4: "run rt [PressNumber (ascii ''5''), PressOperator [DIVIDE], PressNumber (ascii ''0''),
                    PressEquals] initialState = handleCalculate rt s3"
    unfolding s3_def by (simp add: run_def)
  have d: "expression s3 = E \<and> result s3 = ascii ''Error'' \<and> hasError s3
           \<and> expression (handleCalculate rt s3) = E"
    if h: "case evaluate rt (ascii ''5/0'') of None \<Rightarrow> True | Some v \<Rightarrow> \<not> isFinite v"
  proof -
    have "calculateResult rt E = ascii ''Error''"
      unfolding calculateResult_def E_def mathExpr_5div0 using trim_5div0 h
      by (auto simp: formatResult_def split: option.splits)
    then show ?thesis
      by (simp add: s3 updateExpression_fields handleCalculate_def)
  qed
  show ?thesis
    using a b c d unfolding s4 s3_def [symmetric] E_def [symmetric] by blast
qed

theorem equals_after_error_witness:
  "result (run demoRuntime [PressNumber (ascii ''5''), PressOperator [DIVIDE],
                            PressNumber (ascii ''0'')] initialState) = ascii ''Error''
   \<and> hasError (run demoRuntime [PressNumber (ascii ''5''), PressOperator [DIVIDE],
                            PressNumber (ascii ''0'')] initialState)
   \<and> expression (run demoRuntime [PressNumber (ascii ''5''), PressOperator [DIVIDE],
                            PressNumber (ascii ''0''), PressEquals] initialState)
      = ascii ''5'' @ [DIVIDE] @ ascii ''0''
   \<and> handleCalculate demoRuntime
        \<lparr>expression = ascii ''2+'', result = ascii ''Error'', memory = Finite 0, hasError = True\<rparr>
      = \<lparr>expression = ascii ''2+'', result = ascii ''Error'', memory = Finite 0, hasError = True\<rparr>"
  using equals_after_error [of
      "\<lparr>expression = ascii ''2+'', result = ascii ''Error'', memory = Finite 0, hasError = True\<rparr>"
      demoRuntime]
  by (simp add: demo_fields demoEvaluate_5div0)

section \<open>The decimal point\<close>

lemma isSplitChar_iff: "isSplitChar c \<longleftrightarrow> c \<in> {of_char CHR ''+'', MINUS, TIMES, DIVIDE}"
  by (simp add: isSplitChar_def)

lemma currentSegment_eq:
  "currentSegment s = rev (takeWhile (\<lambda>c. \<not> isSplitChar c) (rev s))"
  by (simp add: currentSegment_def isSplitChar_iff)

lemma currentSegment_Cons:
  "currentSegment (c # cs) =
     (if list_ex isSplitChar cs then currentSegment cs
      else if isSplitChar c then cs else c # cs)"
  by (auto simp: currentSegment_eq takeWhile_append list_ex_iff)

lemma splitAcc_not_Nil: "splitAcc cur s \<noteq> []"
  by (induction s arbitrary: cur) auto

lemma last_splitAcc:
  "last (splitAcc cur s) = (if list_ex isSplitChar s then currentSegment s else cur @ s)"
proof (induction s arbitrary: cur)
  case Nil
  show ?case by simp
next
  case (Cons c cs)
  show ?case
  proof (cases "isSplitChar c")
    case True
    then have "last (splitAcc cur (c # cs)) = last (splitAcc [] cs)"
      by (simp add: splitAcc_not_Nil)
    also have "\<dots> = (if list_ex isSplitChar cs then currentSegment cs else cs)"
      by (simp add: Cons.IH)
    finally show ?thesis using True by (simp add: currentSegment_Cons)
  next
    case False
    then have "last (splitAcc cur (c # cs)) = last (splitAcc (cur @ [c]) cs)" by simp
    also have "\<dots> = (if list_ex isSplitChar cs then currentSegment cs else (cur @ [c]) @ cs)"
      by (rule Cons.IH)
    finally show ?thesis using False by (simp add: currentSegment_Cons)
  qed
qed

lemma last_splitOperators: "last (splitOperators s) = currentSegment s"
proof (cases "list_ex isSplitChar s")
  case True
  then show ?thesis by (simp add: splitOperators_def last_splitAcc)
next
  case False
  then have "\<forall>c\<in>set (rev s). \<not> isSplitChar c" by (simp add: list_ex_iff)
  then have tw: "takeWhile (\<lambda>c. \<not> isSplitChar c) (rev s) = rev s"
    by (simp only: takeWhile_eq_all_conv)
  have "currentSegment s = s" unfolding currentSegment_eq tw by simp
  with False show ?thesis by (simp add: splitOperators_def last_splitAcc)
qed

text \<open>
  Claim C5. \<^verbatim>\<open>handleDecimal\<close> leaves the state unchanged when the current numeric
  segment, the substring since the last operator, contains a point, and appends a point
  otherwise; so the expression is unchanged exactly when the segment contains a point.
  From \<^verbatim>\<open>"3."\<close> nothing changes.
\<close>

theorem handleDecimal_rejects:
  "handleDecimal rt s =
     (if of_char CHR ''.'' \<in> set (currentSegment (expression s)) then s
      else updateExpression rt (expression s @ ascii ''.'') s)
   \<and> (expression (handleDecimal rt s) = expression s
        \<longleftrightarrow> of_char CHR ''.'' \<in> set (currentSegment (expression s)))
   \<and> (expression s = ascii ''3.'' \<longrightarrow> handleDecimal rt s = s)"
proof -
  have a: "handleDecimal rt s =
     (if of_char CHR ''.'' \<in> set (currentSegment (expression s)) then s
      else updateExpression rt (expression s @ ascii ''.'') s)"
    by (simp add: handleDecimal_def Let_def last_splitOperators)
  have b: "expression (handleDecimal rt s) = expression s
        \<longleftrightarrow> of_char CHR ''.'' \<in> set (currentSegment (expression s))"
    by (simp add: a updateExpression_fields ascii_def)
  have "of_char CHR ''.'' \<in> set (currentSegment (ascii ''3.''))"
    by (simp add: currentSegment_def ascii_def glyphs)
  then have c: "expression s = ascii ''3.'' \<longrightarrow> handleDecimal rt s = s"
    by (simp add: a)
  from a b c show ?thesis by blast
qed

theorem handleDecimal_rejects_witness:
  "handleDecimal demoRuntime
      \<lparr>expression = ascii ''3.'', result = ascii ''3'', memory = Finite 0, hasError = False\<rparr>
   = \<lparr>expression = ascii ''3.'', result = ascii ''3'', memory = Finite 0, hasError = False\<rparr>"
proof -
  let ?s = "\<lparr>expression = ascii ''3.'', result = ascii ''3'', memory = Finite 0,
             hasError = False\<rparr>"
  have "expression ?s = ascii ''3.'' \<longrightarrow> handleDecimal demoRuntime ?s = ?s"
    using handleDecimal_rejects [of demoRuntime ?s] by blast
  then show ?thesis by simp
qed

section \<open>The bound of the standard infix evaluation\<close>

text \<open>A successful reading consumes a prefix of the string, succeeds again with every
  bound of at least \<open>callsNeeded\<close>, and so the value of an expression that any bound
  finds is the one \<open>infixValue\<close> returns.\<close>

lemma dropWhile_suffix: "\<exists>u. s = u @ dropWhile P s"
  by (metis takeWhile_dropWhile_id)

lemma infixParse_consumes:
  "infixParse rnd n g s = Some (v, r) \<Longrightarrow> \<exists>u. s = u @ r \<and> (readsCharacter g \<longrightarrow> u \<noteq> [])"
proof (induction n arbitrary: g s v r)
  case 0
  then show ?case by simp
next
  case (Suc n)
  show ?case
  proof (cases g)
    case NExpr
    with Suc.prems obtain w t where
      1: "infixParse rnd n NTerm s = Some (w, t)" and 2: "infixParse rnd n (NExprRest w) t = Some (v, r)"
      by (auto split: option.splits)
    from Suc.IH [OF 1] Suc.IH [OF 2] NExpr show ?thesis by auto
  next
    case (NExprRest w)
    show ?thesis
    proof (cases s)
      case Nil
      with Suc.prems NExprRest show ?thesis by simp
    next
      case (Cons c t)
      show ?thesis
      proof (cases "c = of_char CHR ''+'' \<or> c = of_char CHR ''-''")
        case True
        with Suc.prems NExprRest Cons obtain x t' w' where
          1: "infixParse rnd n NTerm t = Some (x, t')"
          and 2: "infixParse rnd n (NExprRest w') t' = Some (v, r)"
          by (auto split: option.splits if_splits)
        from Suc.IH [OF 1] Suc.IH [OF 2] NExprRest Cons show ?thesis by auto
      next
        case False
        with Suc.prems NExprRest Cons show ?thesis by auto
      qed
    qed
  next
    case NTerm
    with Suc.prems obtain w t where
      1: "infixParse rnd n NFactor s = Some (w, t)" and 2: "infixParse rnd n (NTermRest w) t = Some (v, r)"
      by (auto split: option.splits)
    from Suc.IH [OF 1] Suc.IH [OF 2] NTerm show ?thesis by auto
  next
    case (NTermRest w)
    show ?thesis
    proof (cases s)
      case Nil
      with Suc.prems NTermRest show ?thesis by simp
    next
      case (Cons c t)
      show ?thesis
      proof (cases "c = of_char CHR ''*'' \<or> c = of_char CHR ''/''")
        case True
        with Suc.prems NTermRest Cons obtain x t' w' where
          1: "infixParse rnd n NFactor t = Some (x, t')"
          and 2: "infixParse rnd n (NTermRest w') t' = Some (v, r)"
          by (auto split: option.splits if_splits)
        from Suc.IH [OF 1] Suc.IH [OF 2] NTermRest Cons show ?thesis by auto
      next
        case False
        with Suc.prems NTermRest Cons show ?thesis by auto
      qed
    qed
  next
    case NFactor
    show ?thesis
    proof (cases s)
      case Nil
      with Suc.prems NFactor show ?thesis by simp
    next
      case (Cons c t)
      consider (digit) "isDigit c"
        | (paren) "\<not> isDigit c" "c = of_char CHR ''(''"
        | (minus) "\<not> isDigit c" "c \<noteq> of_char CHR ''(''" "c = of_char CHR ''-''"
        | (plus) "\<not> isDigit c" "c \<noteq> of_char CHR ''(''" "c \<noteq> of_char CHR ''-''"
            "c = of_char CHR ''+''"
        | (other) "\<not> isDigit c" "c \<noteq> of_char CHR ''(''" "c \<noteq> of_char CHR ''-''"
            "c \<noteq> of_char CHR ''+''"
        by blast
      then show ?thesis
      proof cases
        case digit
        with Suc.prems NFactor Cons have "r = dropWhile isDigit t" by auto
        then obtain u where "t = u @ r" using dropWhile_suffix by metis
        with Cons NFactor show ?thesis by auto
      next
        case paren
        with Suc.prems NFactor Cons obtain t' where
          1: "infixParse rnd n NExpr t = Some (v, t')" and 2: "t' = of_char CHR '')'' # r"
          by (auto split: option.splits list.splits if_splits)
        from Suc.IH [OF 1] 2 Cons NFactor show ?thesis by auto
      next
        case minus
        with Suc.prems NFactor Cons obtain w where
          1: "infixParse rnd n NFactor t = Some (w, r)"
          by (auto split: option.splits)
        from Suc.IH [OF 1] Cons NFactor show ?thesis by auto
      next
        case plus
        with Suc.prems NFactor Cons have
          1: "infixParse rnd n NFactor t = Some (v, r)"
          by auto
        from Suc.IH [OF 1] Cons NFactor show ?thesis by auto
      next
        case other
        with Suc.prems NFactor Cons show ?thesis by auto
      qed
    qed
  qed
qed


lemma infixParse_length:
  assumes "infixParse rnd n g s = Some (v, r)"
  shows "length r \<le> length s" and "readsCharacter g \<Longrightarrow> length r < length s"
  using infixParse_consumes [OF assms] by auto

lemma infixParse_bound:
  "infixParse rnd n g s = Some (v, r) \<Longrightarrow> callsNeeded g (length s - length r) \<le> m
   \<Longrightarrow> infixParse rnd m g s = Some (v, r)"
proof (induction n arbitrary: g s v r m)
  case 0
  then show ?case by simp
next
  case (Suc n)
  note len = infixParse_length [OF Suc.prems(1)]
  have "0 < m"
    using Suc.prems(2) len by (cases g) auto
  then obtain m' where m: "m = Suc m'" by (cases m) auto
  show ?case
  proof (cases g)
    case NExpr
    with Suc.prems obtain w t where
      1: "infixParse rnd n NTerm s = Some (w, t)"
      and 2: "infixParse rnd n (NExprRest w) t = Some (v, r)"
      by (auto split: option.splits)
    note l1 = infixParse_length [OF 1] and l2 = infixParse_length [OF 2]
    have "callsNeeded NTerm (length s - length t) \<le> m'"
      using Suc.prems(2) NExpr m l1 l2 by simp
    from Suc.IH [OF 1 this] have 3: "infixParse rnd m' NTerm s = Some (w, t)" .
    have "callsNeeded (NExprRest w) (length t - length r) \<le> m'"
      using Suc.prems(2) NExpr m l1 l2 by simp
    from Suc.IH [OF 2 this] have 4: "infixParse rnd m' (NExprRest w) t = Some (v, r)" .
    from 3 4 NExpr m show ?thesis by simp
  next
    case (NExprRest w)
    show ?thesis
    proof (cases s)
      case Nil
      with Suc.prems NExprRest m show ?thesis by simp
    next
      case (Cons c t)
      show ?thesis
      proof (cases "c = of_char CHR ''+'' \<or> c = of_char CHR ''-''")
        case True
        with Suc.prems NExprRest Cons obtain x t' where
          1: "infixParse rnd n NTerm t = Some (x, t')"
          and 2: "infixParse rnd n
                    (NExprRest (if c = of_char CHR ''+'' then num_add rnd w x
                                else num_sub rnd w x)) t' = Some (v, r)"
          by (auto split: option.splits if_splits)
        note l1 = infixParse_length [OF 1] and l2 = infixParse_length [OF 2]
        have "callsNeeded NTerm (length t - length t') \<le> m'"
          using Suc.prems(2) NExprRest Cons m l1 l2 by simp
        from Suc.IH [OF 1 this] have 3: "infixParse rnd m' NTerm t = Some (x, t')" .
        have "callsNeeded (NExprRest (if c = of_char CHR ''+'' then num_add rnd w x
                               else num_sub rnd w x)) (length t' - length r) \<le> m'"
          using Suc.prems(2) NExprRest Cons m l1 l2 by simp
        from Suc.IH [OF 2 this] 3 True NExprRest Cons m show ?thesis by auto
      next
        case False
        with Suc.prems NExprRest Cons m show ?thesis by auto
      qed
    qed
  next
    case NTerm
    with Suc.prems obtain w t where
      1: "infixParse rnd n NFactor s = Some (w, t)"
      and 2: "infixParse rnd n (NTermRest w) t = Some (v, r)"
      by (auto split: option.splits)
    note l1 = infixParse_length [OF 1] and l2 = infixParse_length [OF 2]
    have "callsNeeded NFactor (length s - length t) \<le> m'"
      using Suc.prems(2) NTerm m l1 l2 by simp
    from Suc.IH [OF 1 this] have 3: "infixParse rnd m' NFactor s = Some (w, t)" .
    have "callsNeeded (NTermRest w) (length t - length r) \<le> m'"
      using Suc.prems(2) NTerm m l1 l2 by simp
    from Suc.IH [OF 2 this] have 4: "infixParse rnd m' (NTermRest w) t = Some (v, r)" .
    from 3 4 NTerm m show ?thesis by simp
  next
    case (NTermRest w)
    show ?thesis
    proof (cases s)
      case Nil
      with Suc.prems NTermRest m show ?thesis by simp
    next
      case (Cons c t)
      show ?thesis
      proof (cases "c = of_char CHR ''*'' \<or> c = of_char CHR ''/''")
        case True
        with Suc.prems NTermRest Cons obtain x t' where
          1: "infixParse rnd n NFactor t = Some (x, t')"
          and 2: "infixParse rnd n
                    (NTermRest (if c = of_char CHR ''*'' then num_mul rnd w x
                                else num_div rnd w x)) t' = Some (v, r)"
          by (auto split: option.splits if_splits)
        note l1 = infixParse_length [OF 1] and l2 = infixParse_length [OF 2]
        have "callsNeeded NFactor (length t - length t') \<le> m'"
          using Suc.prems(2) NTermRest Cons m l1 l2 by simp
        from Suc.IH [OF 1 this] have 3: "infixParse rnd m' NFactor t = Some (x, t')" .
        have "callsNeeded (NTermRest (if c = of_char CHR ''*'' then num_mul rnd w x
                               else num_div rnd w x)) (length t' - length r) \<le> m'"
          using Suc.prems(2) NTermRest Cons m l1 l2 by simp
        from Suc.IH [OF 2 this] 3 True NTermRest Cons m show ?thesis by auto
      next
        case False
        with Suc.prems NTermRest Cons m show ?thesis by auto
      qed
    qed
  next
    case NFactor
    show ?thesis
    proof (cases s)
      case Nil
      with Suc.prems NFactor show ?thesis by simp
    next
      case (Cons c t)
      consider (digit) "isDigit c"
        | (paren) "\<not> isDigit c" "c = of_char CHR ''(''"
        | (minus) "\<not> isDigit c" "c \<noteq> of_char CHR ''(''" "c = of_char CHR ''-''"
        | (plus) "\<not> isDigit c" "c \<noteq> of_char CHR ''(''" "c \<noteq> of_char CHR ''-''"
            "c = of_char CHR ''+''"
        | (other) "\<not> isDigit c" "c \<noteq> of_char CHR ''(''" "c \<noteq> of_char CHR ''-''"
            "c \<noteq> of_char CHR ''+''"
        by blast
      then show ?thesis
      proof cases
        case digit
        with Suc.prems NFactor Cons m show ?thesis by auto
      next
        case paren
        with Suc.prems NFactor Cons obtain t' where
          1: "infixParse rnd n NExpr t = Some (v, t')" and 2: "t' = of_char CHR '')'' # r"
          by (auto split: option.splits list.splits if_splits)
        note l1 = infixParse_length [OF 1]
        have "callsNeeded NExpr (length t - length t') \<le> m'"
          using Suc.prems(2) NFactor Cons m l1 2 by simp
        from Suc.IH [OF 1 this] 2 paren NFactor Cons m show ?thesis by simp
      next
        case minus
        with Suc.prems NFactor Cons obtain w where
          1: "infixParse rnd n NFactor t = Some (w, r)" and 2: "v = num_neg w"
          by (auto split: option.splits)
        note l1 = infixParse_length [OF 1]
        have "callsNeeded NFactor (length t - length r) \<le> m'"
          using Suc.prems(2) NFactor Cons m l1 by simp
        from Suc.IH [OF 1 this] 2 minus NFactor Cons m show ?thesis by simp
      next
        case plus
        with Suc.prems NFactor Cons have
          1: "infixParse rnd n NFactor t = Some (v, r)"
          by auto
        note l1 = infixParse_length [OF 1]
        have "callsNeeded NFactor (length t - length r) \<le> m'"
          using Suc.prems(2) NFactor Cons m l1 by simp
        from Suc.IH [OF 1 this] plus NFactor Cons m show ?thesis by simp
      next
        case other
        with Suc.prems NFactor Cons show ?thesis by auto
      qed
    qed
  qed
qed

lemma infixValue_any_bound:
  "infixParse rnd n NExpr s = Some (v, []) \<Longrightarrow> infixValue rnd s = Some v"
proof -
  assume a: "infixParse rnd n NExpr s = Some (v, [])"
  have "callsNeeded NExpr (length s - length ([]::jstring)) \<le> Suc (4 * length s)" by simp
  from infixParse_bound [OF a this] show ?thesis by (simp add: infixValue_def)
qed

section \<open>Arithmetic expressions\<close>

text \<open>On an expression of digits, the four operators and parentheses, the chain of
  replacements is the translation of the three glyphs, character by character.\<close>

lemma translate_glyphs:
  "replaceAll [MINUS] (ascii ''-'')
     (replaceAll [DIVIDE] (ascii ''/'') (replaceAll [TIMES] (ascii ''*'') e))
   = map toEvaluatorChar e"
  by (induction e) (simp_all add: ascii_def toEvaluatorChar_def glyphs)

lemma toEvaluatorChar_arith: "arithGlyph c \<Longrightarrow> evaluatorChar (toEvaluatorChar c)"
  by (auto simp: arithGlyph_def evaluatorChar_def toEvaluatorChar_def)

lemma replaceAll_no_evaluatorChar:
  assumes "list_all arithGlyph e" and "\<not> evaluatorChar p"
  shows "replaceAll (p # ps) rep (map toEvaluatorChar e) = map toEvaluatorChar e"
proof -
  have "p \<notin> set (map toEvaluatorChar e)"
    using assms by (auto simp: list_all_iff dest: toEvaluatorChar_arith)
  then show ?thesis by (rule replaceAll_absent)
qed

lemma not_evaluatorChar:
  "\<not> evaluatorChar PI" "\<not> evaluatorChar SQRT"
  "\<not> evaluatorChar (of_char CHR ''e'')" "\<not> evaluatorChar (of_char CHR ''x'')"
  "\<not> evaluatorChar (of_char CHR ''s'')" "\<not> evaluatorChar (of_char CHR ''c'')"
  "\<not> evaluatorChar (of_char CHR ''t'')" "\<not> evaluatorChar (of_char CHR ''l'')"
  by (simp_all add: evaluatorChar_def isDigit_def glyphs)

lemma mathExpr_arith:
  assumes "list_all arithGlyph e"
  shows "mathExpr e = map toEvaluatorChar e"
  unfolding mathExpr_def replaceSymbols_def replaceFunctions_def translate_glyphs
  by (simp only: ascii_def list.map replaceAll_no_evaluatorChar [OF assms] not_evaluatorChar
      not_False_eq_True)

lemma arithGlyph_not_white: "arithGlyph c \<Longrightarrow> \<not> isWhiteSpace c"
  by (auto simp: arithGlyph_def isWhiteSpace_def isDigit_def glyphs)

lemma infixValue_Nil: "infixValue rnd [] = None"
  by (simp add: infixValue_def)

text \<open>
  Claim C1. Let \<open>e\<close> be built from digits, the four operators (as glyphs or in ASCII)
  and parentheses. \<^verbatim>\<open>calculateResult\<close> hands the evaluator exactly \<open>e\<close> with the
  glyphs mapped to \<^verbatim>\<open>+ - * /\<close>, and returns the formatted value, or
  \<^verbatim>\<open>"Error"\<close> when the evaluator throws. So when \<open>e\<close> is a valid expression, one
  whose standard infix evaluation has a value \<open>v\<close>, and the evaluator of the library
  computes the standard infix evaluation of the string it is given,
  \<^verbatim>\<open>calculateResult\<close> returns the formatted \<open>v\<close>. For \<^verbatim>\<open>2+3*4\<close> this is the
  string of 14.
\<close>

theorem calculateResult_standard_infix:
  assumes "list_all arithGlyph e"
  shows "mathExpr e = map toEvaluatorChar e
    \<and> (e \<noteq> [] \<longrightarrow>
         calculateResult rt e =
           (case evaluate rt (map toEvaluatorChar e) of
              None \<Rightarrow> ascii ''Error''
            | Some w \<Rightarrow> formatResult rt w))
    \<and> (infixValue (roundToDouble rt) (map toEvaluatorChar e) = Some v \<longrightarrow>
         evaluate rt (map toEvaluatorChar e)
           = infixValue (roundToDouble rt) (map toEvaluatorChar e) \<longrightarrow>
         calculateResult rt e = formatResult rt v)"
proof -
  have m: "mathExpr e = map toEvaluatorChar e"
    using assms by (rule mathExpr_arith)
  have c: "calculateResult rt e =
             (case evaluate rt (map toEvaluatorChar e) of
                None \<Rightarrow> ascii ''Error''
              | Some w \<Rightarrow> formatResult rt w)"
    if "e \<noteq> []"
  proof -
    from that obtain x xs where e: "e = x # xs" by (cases e) auto
    with assms have "\<not> isWhiteSpace x" by (simp add: arithGlyph_not_white)
    with e have "\<not> list_all isWhiteSpace e" by simp
    then have "trim e \<noteq> []" by (simp add: trim_empty_iff)
    then show ?thesis by (simp add: calculateResult_def m)
  qed
  have "calculateResult rt e = formatResult rt v"
    if v: "infixValue (roundToDouble rt) (map toEvaluatorChar e) = Some v"
      and lib: "evaluate rt (map toEvaluatorChar e)
                = infixValue (roundToDouble rt) (map toEvaluatorChar e)"
  proof -
    have "e \<noteq> []" using v by (auto simp: infixValue_Nil)
    then show ?thesis by (simp add: c v lib)
  qed
  with m c show ?thesis by blast
qed

theorem calculateResult_standard_infix_witness:
  "calculateResult demoRuntime (ascii ''2+3*4'') = ascii ''14''
   \<and> calculateResult demoRuntime
        (ascii ''(2+3)'' @ [TIMES] @ ascii ''4'' @ [MINUS] @ ascii ''10'' @ [DIVIDE] @ ascii ''4'')
       = ascii ''17.5''"
proof -
  let ?e = "ascii ''(2+3)'' @ [TIMES] @ ascii ''4'' @ [MINUS] @ ascii ''10'' @ [DIVIDE] @ ascii ''4''"
  have a: "list_all arithGlyph (ascii ''2+3*4'')" "list_all arithGlyph ?e"
    by (simp_all add: ascii_def arithGlyph_def isDigit_def glyphs)
  have t: "map toEvaluatorChar (ascii ''2+3*4'') = ascii ''2+3*4''"
    "map toEvaluatorChar ?e = ascii ''(2+3)*4-10/4''"
    by (simp_all add: ascii_def toEvaluatorChar_def glyphs)
  have f: "formatResult demoRuntime (Finite 14) = ascii ''14''"
    "formatResult demoRuntime (Finite (35 / 2)) = ascii ''17.5''"
    by (simp_all add: formatResult_Finite double_1em6_def demo_fields demoFormat_def)
  have d: "demoEvaluate (ascii ''2+3*4'') = infixValue Finite (ascii ''2+3*4'')"
    "demoEvaluate (ascii ''(2+3)*4-10/4'') = infixValue Finite (ascii ''(2+3)*4-10/4'')"
    by (simp_all add: demoEvaluate_2p3t4 demoEvaluate_glyphs infixValue_examples)
  have "calculateResult demoRuntime (ascii ''2+3*4'') = formatResult demoRuntime (Finite 14)"
    using calculateResult_standard_infix [of "ascii ''2+3*4''" demoRuntime "Finite 14"] a(1)
    by (simp add: t demo_fields d infixValue_examples)
  moreover have "calculateResult demoRuntime ?e = formatResult demoRuntime (Finite (35 / 2))"
    using calculateResult_standard_infix [of ?e demoRuntime "Finite (35 / 2)"] a(2)
    by (simp only: t demo_fields d infixValue_examples)
  ultimately show ?thesis by (simp only: f)
qed

section \<open>The logarithm buttons\<close>

lemma replaceSymbols_ln:
  "replaceSymbols (a @ ascii ''ln'' @ b) = replaceSymbols a @ ascii ''ln'' @ replaceSymbols b"
  by (simp add: replaceSymbols_def ascii_def glyphs replaceAll_append)

lemma replaceFunctions_ln:
  "replaceFunctions (a @ ascii ''ln'' @ b)
   = replaceFunctions a @ ascii ''log10'' @ replaceFunctions b"
  by (simp add: replaceFunctions_def ascii_def glyphs replaceAll_append)

lemma mathExpr_ln100: "mathExpr (ascii ''ln(100)'') = ascii ''log10(100)''"
  by (simp add: mathExpr_def replaceFunctions_def replaceSymbols_def ascii_def glyphs)

lemma trim_ln100: "trim (ascii ''ln(100)'') \<noteq> []"
  by (simp add: trim_def ascii_def isWhiteSpace_def)

text \<open>
  Claim C9. The chain of replacements for the functions amounts to \<^verbatim>\<open>ln\<close> to
  \<^verbatim>\<open>log\<close> and then \<^verbatim>\<open>log\<close> to \<^verbatim>\<open>log10\<close>, so every \<^verbatim>\<open>ln\<close> of an
  expression reaches the evaluator as \<^verbatim>\<open>log10\<close>, whatever stands around it. The
  \<^verbatim>\<open>ln\<close> button appends \<^verbatim>\<open>ln(\<close>. For \<^verbatim>\<open>ln(100)\<close> the evaluator is asked
  for \<^verbatim>\<open>log10(100)\<close>; where that is 2 and prints as \<^verbatim>\<open>"2"\<close>, the result is
  \<^verbatim>\<open>"2"\<close>.
\<close>

theorem ln_becomes_log10:
  "replaceFunctions m =
     replaceAll (ascii ''log'') (ascii ''log10'') (replaceAll (ascii ''ln'') (ascii ''log'') m)
   \<and> mathExpr (a @ ascii ''ln'' @ b) = mathExpr a @ ascii ''log10'' @ mathExpr b
   \<and> expression (handleScientificFunction rt (ascii ''ln'') s) = expression s @ ascii ''ln(''
   \<and> calculateResult rt (ascii ''ln(100)'') =
       (case evaluate rt (ascii ''log10(100)'') of
          None \<Rightarrow> ascii ''Error''
        | Some v \<Rightarrow> formatResult rt v)
   \<and> (evaluate rt (ascii ''log10(100)'') = Some (Finite 2)
        \<and> mathjs_format rt (Finite 2) 10 = ascii ''2''
      \<longrightarrow> calculateResult rt (ascii ''ln(100)'') = ascii ''2'')"
proof -
  have 1: "replaceFunctions m =
     replaceAll (ascii ''log'') (ascii ''log10'') (replaceAll (ascii ''ln'') (ascii ''log'') m)"
    by (simp only: replaceFunctions_def replaceAll_same)
  have 2: "mathExpr (a @ ascii ''ln'' @ b) = mathExpr a @ ascii ''log10'' @ mathExpr b"
    by (simp only: mathExpr_def replaceSymbols_ln replaceFunctions_ln)
  have "ascii ''ln'' \<noteq> [of_char CHR ''x'', SUPERSCRIPT_TWO]" "ascii ''ln'' \<noteq> ascii ''x^y''"
    "ascii ''ln'' \<in> set needsParentheses"
    by (simp_all add: ascii_def needsParentheses_def)
  then have 3: "expression (handleScientificFunction rt (ascii ''ln'') s)
                = expression s @ ascii ''ln(''"
    by (simp add: handleScientificFunction_def updateExpression_fields ascii_def)
  have 4: "calculateResult rt (ascii ''ln(100)'') =
       (case evaluate rt (ascii ''log10(100)'') of
          None \<Rightarrow> ascii ''Error''
        | Some v \<Rightarrow> formatResult rt v)"
    unfolding calculateResult_def mathExpr_ln100 using trim_ln100 by simp
  have 5: "evaluate rt (ascii ''log10(100)'') = Some (Finite 2)
        \<and> mathjs_format rt (Finite 2) 10 = ascii ''2''
      \<longrightarrow> calculateResult rt (ascii ''ln(100)'') = ascii ''2''"
    by (simp add: 4 formatResult_Finite double_1em6_def)
  from 1 2 3 4 5 show ?thesis by blast
qed

theorem ln_becomes_log10_witness:
  "calculateResult demoRuntime (ascii ''ln(100)'') = ascii ''2''"
proof -
  have "evaluate demoRuntime (ascii ''log10(100)'') = Some (Finite 2)"
    by (simp add: demo_fields demoEvaluate_def)
  moreover have "mathjs_format demoRuntime (Finite 2) 10 = ascii ''2''"
    by (simp add: demo_fields demoFormat_def)
  ultimately show ?thesis
    using ln_becomes_log10 [of _ _ _ demoRuntime] by blast
qed

section \<open>The result and the expression in reachable states\<close>

lemma handleEvent_error_flag:
  "(hasError s \<longleftrightarrow> result s = ascii ''Error'')
   \<Longrightarrow> (hasError (handleEvent rt ev s) \<longleftrightarrow> result (handleEvent rt ev s) = ascii ''Error'')"
  by (cases ev)
     (auto simp: handleNumber_def handleOperator_def handleScientificFunction_def
        handleParenthesis_def handleDecimal_def handleBackspace_def handleClearAll_def
        handleCalculate_def handleMemoryFunction_def updateExpression_fields Let_def ascii_def)

lemma calculateResult_Nil: "calculateResult rt [] = ascii ''0''"
  by (simp add: calculateResult_def trim_def)

lemma handleEvent_evaluation:
  assumes "ev \<noteq> PressEquals" and "result s = calculateResult rt (expression s)"
  shows "result (handleEvent rt ev s) = calculateResult rt (expression (handleEvent rt ev s))"
  using assms
  by (cases ev)
     (auto simp: handleNumber_def handleOperator_def handleScientificFunction_def
        handleParenthesis_def handleDecimal_def handleBackspace_def handleClearAll_def
        handleMemoryFunction_def updateExpression_fields Let_def calculateResult_Nil)

lemma handleEvent_reevaluates:
  assumes "reevaluates ev"
  shows "result (handleEvent rt ev s) = calculateResult rt (expression (handleEvent rt ev s))
         \<and> (hasError (handleEvent rt ev s)
              \<longleftrightarrow> result (handleEvent rt ev s) = ascii ''Error'')"
proof -
  have mr: "ascii ''MR'' \<noteq> ascii ''MC''" by (simp add: ascii_def)
  have z: "ascii ''0'' \<noteq> ascii ''Error''" by (simp add: ascii_def)
  from assms show ?thesis
    by (cases ev)
       (simp_all add: handleNumber_def handleOperator_def handleScientificFunction_def
          handleParenthesis_def handleBackspace_def handleClearAll_def
          handleMemoryFunction_def updateExpression_fields Let_def calculateResult_Nil mr z)
qed

lemma handleEvent_changed:
  assumes "ev \<noteq> PressEquals" and "expression (handleEvent rt ev s) \<noteq> expression s"
  shows "result (handleEvent rt ev s) = calculateResult rt (expression (handleEvent rt ev s))
         \<and> (hasError (handleEvent rt ev s)
              \<longleftrightarrow> result (handleEvent rt ev s) = ascii ''Error'')"
proof (cases "reevaluates ev")
  case True
  then show ?thesis by (rule handleEvent_reevaluates)
next
  case False
  with assms(1) consider (dec) "ev = PressDecimal"
    | (mem) func where "ev = PressMemory func" "func \<noteq> ascii ''MR''"
    by (cases ev) auto
  then show ?thesis
  proof cases
    case dec
    with assms(2) show ?thesis
      by (simp add: handleDecimal_def Let_def updateExpression_fields split: if_splits)
  next
    case mem
    with assms(2) show ?thesis
      by (simp add: handleMemoryFunction_def Let_def split: if_splits)
  qed
qed

lemma handleCalculate_fields:
  "hasError s \<Longrightarrow> handleCalculate rt s = s"
  "\<not> hasError s \<Longrightarrow> result (handleCalculate rt s) = calculateResult rt (expression s)"
  "\<not> hasError s \<Longrightarrow>
     hasError (handleCalculate rt s) = (calculateResult rt (expression s) = ascii ''Error'')"
  "\<not> hasError s \<Longrightarrow>
     expression (handleCalculate rt s) =
       (if calculateResult rt (expression s) = ascii ''Error'' then expression s
        else calculateResult rt (expression s))"
  "memory (handleCalculate rt s) = memory s"
  by (simp_all add: handleCalculate_def Let_def)

lemma handleEvent_result_kind:
  assumes "result s = calculateResult rt (expression s)
           \<or> (result s = expression s \<and> \<not> hasError s
               \<and> (\<exists>e. result s = calculateResult rt e))"
    and "hasError s \<longleftrightarrow> result s = ascii ''Error''"
  shows "result (handleEvent rt ev s) = calculateResult rt (expression (handleEvent rt ev s))
         \<or> (result (handleEvent rt ev s) = expression (handleEvent rt ev s)
             \<and> \<not> hasError (handleEvent rt ev s)
             \<and> (\<exists>e. result (handleEvent rt ev s) = calculateResult rt e))"
proof (cases "ev = PressEquals")
  case True
  show ?thesis
  proof (cases "hasError s")
    case True
    with \<open>ev = PressEquals\<close> assms show ?thesis by (simp add: handleCalculate_fields)
  next
    case False
    with \<open>ev = PressEquals\<close> show ?thesis
      by (auto simp: handleCalculate_fields)
  qed
next
  case False
  show ?thesis
  proof (cases "expression (handleEvent rt ev s) = expression s")
    case changed: False
    with False handleEvent_changed show ?thesis by blast
  next
    case same: True
    show ?thesis
    proof (cases "reevaluates ev")
      case True
      then show ?thesis using handleEvent_reevaluates by blast
    next
      case nr: False
      with False consider (dec) "ev = PressDecimal"
        | (mem) func where "ev = PressMemory func" "func \<noteq> ascii ''MR''"
        by (cases ev) auto
      then have "result (handleEvent rt ev s) = result s
                 \<and> hasError (handleEvent rt ev s) = hasError s"
      proof cases
        case dec
        with same show ?thesis
          by (simp add: handleDecimal_def Let_def updateExpression_fields ascii_def
              split: if_splits)
      next
        case mem
        then show ?thesis
          by (simp add: handleMemoryFunction_def Let_def)
      qed
      with same assms(1) show ?thesis by simp
    qed
  qed
qed

lemma run_snoc: "run rt (evs @ [ev]) s = handleEvent rt ev (run rt evs s)"
  by (simp add: run_def)

lemma run_Cons: "run rt (ev # evs) s = run rt evs (handleEvent rt ev s)"
  by (simp add: run_def)

lemma run_without_equals:
  "list_all (\<lambda>e. e \<noteq> PressEquals) evs \<Longrightarrow> result s = calculateResult rt (expression s)
   \<Longrightarrow> result (run rt evs s) = calculateResult rt (expression (run rt evs s))"
proof (induction evs arbitrary: s)
  case Nil
  then show ?case by (simp add: run_def)
next
  case (Cons ev evs)
  from Cons.prems have "ev \<noteq> PressEquals" and rest: "list_all (\<lambda>e. e \<noteq> PressEquals) evs"
    by simp_all
  with Cons.prems(2)
  have "result (handleEvent rt ev s) = calculateResult rt (expression (handleEvent rt ev s))"
    by (simp add: handleEvent_evaluation)
  with rest show ?case
    unfolding run_Cons by (rule Cons.IH)
qed

lemma run_invariant:
  "(hasError (run rt evs initialState) \<longleftrightarrow> result (run rt evs initialState) = ascii ''Error'')
   \<and> (result (run rt evs initialState)
         = calculateResult rt (expression (run rt evs initialState))
       \<or> (result (run rt evs initialState) = expression (run rt evs initialState)
          \<and> \<not> hasError (run rt evs initialState)
          \<and> (\<exists>e. result (run rt evs initialState) = calculateResult rt e)))"
proof (induction evs rule: rev_induct)
  case Nil
  show ?case
    by (simp add: run_def initialState_def calculateResult_Nil) (simp add: ascii_def)
next
  case (snoc ev evs)
  then show ?case
    unfolding run_snoc using handleEvent_error_flag handleEvent_result_kind by blast
qed

text \<open>
  Claim C8, as the code has it. In every state reachable from the initial state,
  \<^verbatim>\<open>hasError\<close> is set exactly when the result is \<^verbatim>\<open>"Error"\<close>, and the result is
  the evaluation of the current expression, except after a successful equals key: then
  the result is the expression itself, an evaluation of the expression that the key
  replaced. Every operation of \<open>reevaluates\<close>, and every operation but the equals key
  that changes the expression, re-establishes from any state that the result is the
  evaluation of the resulting expression and that \<^verbatim>\<open>hasError\<close> says whether it is
  \<^verbatim>\<open>"Error"\<close>, the decimal point when it is accepted among them; every operation
  but the equals key keeps this once it holds. So the
  result is the evaluation of the current expression in every state reached without
  the equals key, and again from any state after an operation of \<open>reevaluates\<close>
  followed by operations other than the equals key. The equals key does nothing when
  \<^verbatim>\<open>hasError\<close> is set; otherwise it evaluates the expression and stores the
  evaluation as the result and, unless it is \<^verbatim>\<open>"Error"\<close>, as the new expression,
  which it does not evaluate again.
\<close>

theorem reachable_result_invariant:
  "(reachable rt s \<longrightarrow>
      (hasError s \<longleftrightarrow> result s = ascii ''Error'')
      \<and> (result s = calculateResult rt (expression s)
         \<or> (result s = expression s \<and> \<not> hasError s
            \<and> (\<exists>e. result s = calculateResult rt e))))
   \<and> (reevaluates ev \<longrightarrow>
        result (handleEvent rt ev s) = calculateResult rt (expression (handleEvent rt ev s))
        \<and> (hasError (handleEvent rt ev s)
             \<longleftrightarrow> result (handleEvent rt ev s) = ascii ''Error''))
   \<and> (ev \<noteq> PressEquals \<and> expression (handleEvent rt ev s) \<noteq> expression s \<longrightarrow>
        result (handleEvent rt ev s) = calculateResult rt (expression (handleEvent rt ev s))
        \<and> (hasError (handleEvent rt ev s)
             \<longleftrightarrow> result (handleEvent rt ev s) = ascii ''Error''))
   \<and> (of_char CHR ''.'' \<notin> set (currentSegment (expression s)) \<longrightarrow>
        result (handleDecimal rt s) = calculateResult rt (expression (handleDecimal rt s))
        \<and> (hasError (handleDecimal rt s) \<longleftrightarrow> result (handleDecimal rt s) = ascii ''Error''))
   \<and> (ev \<noteq> PressEquals \<and> result s = calculateResult rt (expression s) \<longrightarrow>
        result (handleEvent rt ev s) = calculateResult rt (expression (handleEvent rt ev s)))
   \<and> (list_all (\<lambda>e. e \<noteq> PressEquals) evs \<longrightarrow>
        result (run rt evs initialState)
          = calculateResult rt (expression (run rt evs initialState)))
   \<and> (reevaluates ev \<and> list_all (\<lambda>e. e \<noteq> PressEquals) evs \<longrightarrow>
        result (run rt (ev # evs) s) = calculateResult rt (expression (run rt (ev # evs) s)))
   \<and> (hasError s \<longrightarrow> handleCalculate rt s = s)
   \<and> (\<not> hasError s \<longrightarrow>
        result (handleCalculate rt s) = calculateResult rt (expression s)
        \<and> (hasError (handleCalculate rt s)
             \<longleftrightarrow> calculateResult rt (expression s) = ascii ''Error'')
        \<and> expression (handleCalculate rt s) =
            (if calculateResult rt (expression s) = ascii ''Error'' then expression s
             else calculateResult rt (expression s))
        \<and> memory (handleCalculate rt s) = memory s)
   \<and> result (updateExpression rt e s) = calculateResult rt e
   \<and> hasError (updateExpression rt e s) = (calculateResult rt e = ascii ''Error'')"
proof -
  have 1: "reachable rt s \<longrightarrow>
      (hasError s \<longleftrightarrow> result s = ascii ''Error'')
      \<and> (result s = calculateResult rt (expression s)
         \<or> (result s = expression s \<and> \<not> hasError s
            \<and> (\<exists>e. result s = calculateResult rt e)))"
    using run_invariant [of rt] by (auto simp: reachable_def)
  have 2: "reevaluates ev \<longrightarrow>
        result (handleEvent rt ev s) = calculateResult rt (expression (handleEvent rt ev s))
        \<and> (hasError (handleEvent rt ev s)
             \<longleftrightarrow> result (handleEvent rt ev s) = ascii ''Error'')"
    using handleEvent_reevaluates [of ev rt s] by blast
  have 3: "ev \<noteq> PressEquals \<and> expression (handleEvent rt ev s) \<noteq> expression s \<longrightarrow>
        result (handleEvent rt ev s) = calculateResult rt (expression (handleEvent rt ev s))
        \<and> (hasError (handleEvent rt ev s)
             \<longleftrightarrow> result (handleEvent rt ev s) = ascii ''Error'')"
    using handleEvent_changed [of ev rt s] by blast
  have 4: "ev \<noteq> PressEquals \<and> result s = calculateResult rt (expression s) \<longrightarrow>
        result (handleEvent rt ev s) = calculateResult rt (expression (handleEvent rt ev s))"
    using handleEvent_evaluation [of ev s rt] by blast
  have 10: "of_char CHR ''.'' \<notin> set (currentSegment (expression s)) \<longrightarrow>
        result (handleDecimal rt s) = calculateResult rt (expression (handleDecimal rt s))
        \<and> (hasError (handleDecimal rt s) \<longleftrightarrow> result (handleDecimal rt s) = ascii ''Error'')"
    by (simp add: handleDecimal_def Let_def last_splitOperators updateExpression_fields)
  have "result initialState = calculateResult rt (expression initialState)"
    by (simp add: initialState_def calculateResult_Nil)
  then have 8: "list_all (\<lambda>e. e \<noteq> PressEquals) evs \<longrightarrow>
        result (run rt evs initialState)
          = calculateResult rt (expression (run rt evs initialState))"
    using run_without_equals [of evs initialState rt] by blast
  have 9: "reevaluates ev \<and> list_all (\<lambda>e. e \<noteq> PressEquals) evs \<longrightarrow>
        result (run rt (ev # evs) s) = calculateResult rt (expression (run rt (ev # evs) s))"
    unfolding run_Cons
    using handleEvent_reevaluates [of ev rt s] run_without_equals [of evs "handleEvent rt ev s" rt]
    by blast
  have 5: "hasError s \<longrightarrow> handleCalculate rt s = s"
    by (simp add: handleCalculate_fields)
  have 6: "\<not> hasError s \<longrightarrow>
        result (handleCalculate rt s) = calculateResult rt (expression s)
        \<and> (hasError (handleCalculate rt s)
             \<longleftrightarrow> calculateResult rt (expression s) = ascii ''Error'')
        \<and> expression (handleCalculate rt s) =
            (if calculateResult rt (expression s) = ascii ''Error'' then expression s
             else calculateResult rt (expression s))
        \<and> memory (handleCalculate rt s) = memory s"
    by (simp add: handleCalculate_fields)
  have 7: "result (updateExpression rt e s) = calculateResult rt e"
    "hasError (updateExpression rt e s) = (calculateResult rt e = ascii ''Error'')"
    by (simp_all add: updateExpression_fields)
  from 1 2 3 10 4 8 9 5 6 7 show ?thesis by (intro conjI)
qed

text \<open>
  The claim as the specification states it, that the result is the evaluation of the
  current expression in every reachable state, fails after the equals key. Entering
  \<^verbatim>\<open>0.00000099999999\<close> shows \<^verbatim>\<open>1.000000e-6\<close>, by \<^verbatim>\<open>toExponential(6)\<close>; the
  equals key makes that string the expression, and the evaluation of it is the double
  \<^verbatim>\<open>1e-6\<close>, which is not below the threshold and is printed by \<^verbatim>\<open>format\<close> as
  \<^verbatim>\<open>1e-6\<close>.
\<close>

lemma run_smallNumberKeys:
  "run rt smallNumberKeys initialState
   = handleCalculate rt (updateExpression rt (ascii ''0.00000099999999'') initialState)"
proof -
  have "of_char CHR ''.'' \<notin> set (last (splitOperators (ascii ''0'')))"
    by (simp add: splitOperators_def ascii_def isSplitChar_def glyphs)
  then show ?thesis
    by (simp add: smallNumberKeys_def run_def handleNumber_def handleDecimal_def Let_def
        updateExpression_fields updateExpression_twice initialState_def)
       (simp add: ascii_def)
qed

lemma mathExpr_small:
  "mathExpr (ascii ''0.00000099999999'') = ascii ''0.00000099999999''"
  "mathExpr (ascii ''1.000000e-6'') = ascii ''1.000000e-6''"
  by (simp_all add: mathExpr_def replaceFunctions_def replaceSymbols_def ascii_def glyphs)

lemma trim_small:
  "trim (ascii ''0.00000099999999'') \<noteq> []" "trim (ascii ''1.000000e-6'') \<noteq> []"
  by (simp_all add: trim_def ascii_def isWhiteSpace_def)

lemma demoEvaluate_small:
  "demoEvaluate (ascii ''0.00000099999999'') = Some lit_99999999em14"
  "demoEvaluate (ascii ''1.000000e-6'') = Some lit_1em6"
  by (simp_all add: demoEvaluate_def ascii_def)

lemma calculateResult_small:
  "calculateResult demoRuntime (ascii ''0.00000099999999'') = ascii ''1.000000e-6''"
  "calculateResult demoRuntime (ascii ''1.000000e-6'') = ascii ''1e-6''"
  unfolding calculateResult_def mathExpr_small demo_fields demoEvaluate_small
  using trim_small
  by (simp_all add: lit_99999999em14_def lit_1em6_def double_1em6_def formatResult_Finite
      demo_fields
      demoToExponential_def demoFormat_def)

lemma run_smallNumberKeys_state:
  "run demoRuntime smallNumberKeys initialState
   = \<lparr>expression = ascii ''1.000000e-6'', result = ascii ''1.000000e-6'',
      memory = Finite 0, hasError = False\<rparr>"
proof -
  have ne: "ascii ''1.000000e-6'' \<noteq> ascii ''Error''"
    by (simp add: ascii_def)
  show ?thesis
    unfolding run_smallNumberKeys
    by (simp add: handleCalculate_def Let_def updateExpression_def calculateResult_small ne
        initialState_def)
qed

theorem result_after_equals_counterexample:
  "expression (run demoRuntime smallNumberKeys initialState) = ascii ''1.000000e-6''
   \<and> result (run demoRuntime smallNumberKeys initialState) = ascii ''1.000000e-6''
   \<and> calculateResult demoRuntime (expression (run demoRuntime smallNumberKeys initialState))
       = ascii ''1e-6''
   \<and> result (run demoRuntime smallNumberKeys initialState)
       \<noteq> calculateResult demoRuntime (expression (run demoRuntime smallNumberKeys initialState))"
proof -
  have ne: "ascii ''1.000000e-6'' \<noteq> ascii ''1e-6''"
    by (simp add: ascii_def)
  show ?thesis
    unfolding run_smallNumberKeys_state by (simp add: calculateResult_small ne)
qed

theorem reachable_result_invariant_witness:
  "reachable demoRuntime (run demoRuntime smallNumberKeys initialState)
   \<and> \<not> hasError (run demoRuntime smallNumberKeys initialState)
   \<and> result (run demoRuntime smallNumberKeys initialState)
       = expression (run demoRuntime smallNumberKeys initialState)
   \<and> result (handleEvent demoRuntime PressBackspace
         (run demoRuntime smallNumberKeys initialState))
       = calculateResult demoRuntime (expression (handleEvent demoRuntime PressBackspace
           (run demoRuntime smallNumberKeys initialState)))
   \<and> result (run demoRuntime [PressBackspace, PressMemory (ascii ''MC'')]
         (run demoRuntime smallNumberKeys initialState))
       = calculateResult demoRuntime
           (expression (run demoRuntime [PressBackspace, PressMemory (ascii ''MC'')]
             (run demoRuntime smallNumberKeys initialState)))
   \<and> handleCalculate demoRuntime
        \<lparr>expression = ascii ''2+'', result = ascii ''Error'', memory = Finite 0, hasError = True\<rparr>
       = \<lparr>expression = ascii ''2+'', result = ascii ''Error'', memory = Finite 0, hasError = True\<rparr>
   \<and> result (handleCalculate demoRuntime
         (updateExpression demoRuntime (ascii ''2+3*4'') initialState)) = ascii ''14''
   \<and> expression (handleCalculate demoRuntime
         (updateExpression demoRuntime (ascii ''2+3*4'') initialState)) = ascii ''14''"
proof -
  let ?S = "run demoRuntime smallNumberKeys initialState"
  let ?E = "\<lparr>expression = ascii ''2+'', result = ascii ''Error'', memory = Finite 0,
             hasError = True\<rparr>"
  let ?S2 = "updateExpression demoRuntime (ascii ''2+3*4'') initialState"
  have r: "reachable demoRuntime ?S"
    unfolding reachable_def by blast
  have ne: "ascii ''1.000000e-6'' \<noteq> ascii ''1e-6''" "ascii ''14'' \<noteq> ascii ''Error''"
    by (simp_all add: ascii_def)
  have n: "result ?S \<noteq> calculateResult demoRuntime (expression ?S)"
    unfolding run_smallNumberKeys_state by (simp add: calculateResult_small ne)
  from r n reachable_result_invariant [of demoRuntime ?S]
  have 1: "\<not> hasError ?S \<and> result ?S = expression ?S"
    by blast
  have "reevaluates PressBackspace" by simp
  with reachable_result_invariant [of demoRuntime ?S PressBackspace]
  have 2: "result (handleEvent demoRuntime PressBackspace ?S)
           = calculateResult demoRuntime (expression (handleEvent demoRuntime PressBackspace ?S))"
    by blast
  have "reevaluates PressBackspace \<and> list_all (\<lambda>e. e \<noteq> PressEquals) [PressMemory (ascii ''MC'')]"
    by simp
  with reachable_result_invariant [of demoRuntime ?S PressBackspace "[PressMemory (ascii ''MC'')]"]
  have 5: "result (run demoRuntime [PressBackspace, PressMemory (ascii ''MC'')] ?S)
           = calculateResult demoRuntime
               (expression (run demoRuntime [PressBackspace, PressMemory (ascii ''MC'')] ?S))"
    by blast
  have "hasError ?E" by simp
  with reachable_result_invariant [of demoRuntime ?E]
  have 3: "handleCalculate demoRuntime ?E = ?E"
    by blast
  have c: "calculateResult demoRuntime (expression ?S2) = ascii ''14''"
    by (simp add: updateExpression_fields calculateResult_demo_14)
  then have "\<not> hasError ?S2"
    by (simp add: updateExpression_fields ne)
  with reachable_result_invariant [of demoRuntime ?S2]
  have "result (handleCalculate demoRuntime ?S2) = calculateResult demoRuntime (expression ?S2)
        \<and> expression (handleCalculate demoRuntime ?S2) =
            (if calculateResult demoRuntime (expression ?S2) = ascii ''Error''
             then expression ?S2 else calculateResult demoRuntime (expression ?S2))"
    by blast
  then have 4: "result (handleCalculate demoRuntime ?S2) = ascii ''14''
                \<and> expression (handleCalculate demoRuntime ?S2) = ascii ''14''"
    by (simp only: c ne if_False)
  from r 1 2 5 3 4 show ?thesis by blast
qed

end
